theory Spec2Isabelle
  imports Main "HOL-Library.Sublist"
begin

section \<open>FunctionAppService: data model\<close>

text \<open>
  The service talks to a managed host through asynchronous calls. The embedding is
  sequential: every call to a collaborator (the REST transport, the web-site client, the
  blob service, the token provider) appends one event to a trace and is answered by an
  oracle of the environment; a rejected promise and a thrown exception are the left
  summand of the result.
\<close>

text \<open>\<^verbatim>\<open>Site\<close>: the fields of the host descriptor the service reads.\<close>

record site =
  site_id :: string
  site_name :: string
  defaultHostName :: string
  enabledHostNames :: "string list"

text \<open>
  A binding descriptor. The source reads \<^verbatim>\<open>type\<close>, \<^verbatim>\<open>route\<close>, \<^verbatim>\<open>methods\<close> and
  \<^verbatim>\<open>authLevel\<close>; the last three may be absent (\<open>None\<close> is \<^verbatim>\<open>undefined\<close>).
\<close>

record binding =
  binding_type :: string
  route :: "string option"
  methods :: "string list option"
  authLevel :: "string option"

text \<open>\<^verbatim>\<open>FunctionEnvelope\<close>: a deployed unit, with \<^verbatim>\<open>config.bindings\<close> as \<open>bindings\<close>.\<close>

record function_envelope =
  name :: string
  bindings :: "binding list"

text \<open>\<^verbatim>\<open>FunctionAppHttpTriggerConfig\<close>.\<close>

record http_trigger_config =
  cfg_authLevel :: "string option"
  cfg_methods :: "string list"
  url :: string
  cfg_route :: "string option"
  cfg_name :: string

text \<open>
  What can be thrown. \<open>Error m\<close> is \<^verbatim>\<open>new Error(m)\<close>; \<open>TypeError\<close> is a property read on
  \<^verbatim>\<open>undefined\<close>; \<open>ReferenceError\<close> is a read of a \<^verbatim>\<open>const\<close> before its initialiser has
  finished; \<open>PreconditionViolation\<close> is what a guard throws; \<open>Rejection m\<close> is the
  failure a collaborator rejects its promise with.
\<close>

datatype error =
    Error string
  | TypeError
  | ReferenceError
  | PreconditionViolation
  | Rejection string

text \<open>The text of an error inside a template literal (\<^verbatim>\<open>`${err}`\<close>).\<close>

fun error_to_string :: "error \<Rightarrow> string" where
  "error_to_string (Error m) = ''Error: '' @ m"
| "error_to_string TypeError = ''TypeError''"
| "error_to_string ReferenceError = ''ReferenceError''"
| "error_to_string PreconditionViolation = ''Error''"
| "error_to_string (Rejection m) = m"

text \<open>The outcome of an awaited promise of a collaborator.\<close>

datatype 'a reply = Resolved 'a | Rejected error

text \<open>An element of the listing's \<^verbatim>\<open>value\<close> array: the unit sits under \<^verbatim>\<open>properties\<close>.\<close>

record function_item =
  properties :: function_envelope

text \<open>
  The body of a REST response, one constructor per endpoint: the listing
  (\<^verbatim>\<open>{value: [...]}\<close>), a single unit (\<^verbatim>\<open>{properties: unit}\<close>), the application settings
  (\<^verbatim>\<open>{properties: map}\<close>), plain text, or no body. Reading a field that a body does not
  carry gives \<^verbatim>\<open>undefined\<close>; a body of one endpoint's shape is not followed through
  the code of another endpoint beyond that.
\<close>

datatype api_data =
    NoData
  | TextData string
  | ListData "function_item list"
  | FunctionData "function_envelope option"
  | SettingsData "(string \<rightharpoonup> string) option"

record api_response =
  status :: nat
  data :: api_data

text \<open>\<^verbatim>\<open>data.value\<close>, then used as an array: anything but a listing body throws.\<close>

fun data_value :: "api_data \<Rightarrow> error + function_item list" where
  "data_value (ListData v) = Inr v"
| "data_value _ = Inl TypeError"


text \<open>\<^verbatim>\<open>response.properties\<close> read as a settings map.\<close>

fun settings_properties :: "api_data \<Rightarrow> error + (string \<rightharpoonup> string) option" where
  "settings_properties NoData = Inl TypeError"
| "settings_properties (SettingsData m) = Inr m"
| "settings_properties _ = Inr None"

text \<open>The response of \<^verbatim>\<open>webApps.get\<close>: the site, or a body with an \<^verbatim>\<open>error.code\<close>.\<close>

datatype web_response = SiteResponse site | ErrorResponse string

datatype http_method = GET | PUT | POST | DELETE

text \<open>The \<^verbatim>\<open>{data: {properties}}\<close> option of a request.\<close>

datatype request_body = Properties "(string \<rightharpoonup> string) option"

text \<open>The calls that leave the process, and the sleep between two attempts.\<close>

datatype event =
    ApiRequest http_method string "request_body option"
  | WebAppsGet string string
  | ListApplicationSettings string string
  | BlobInitialize
  | BlobCreateContainerIfNotExists string
  | BlobUploadFile string string string
  | GenerateBlobSasTokenUrl string string
  | GetAccessToken
  | SendFile string string string
  | Sleep nat

text \<open>
  The environment: the fields of the service and of its configuration, the local file
  system, and one oracle per collaborator. An oracle is asked with the number of calls
  made so far (the \<open>clock\<close> of the world), so its answers may change from one call to
  the next, as those of an eventually consistent control plane do.
  Two more oracles order what runs concurrently. Of several outstanding requests that
  will be rejected, \<open>settles_first\<close> names (by its position among them) the one that is
  rejected first. Of the two outstanding calls of the direct-push variant,
  \<open>completes_first\<close> says whether the blob service's completes before the host's.
\<close>

record env =
  baseUrl :: string
  subscriptionId :: string
  resourceGroup :: string
  artifactName :: string
  config_service :: string
  config_stage :: string
  deployment_external :: bool
  deployment_container :: string
  runFromPackageSetting :: string
  option_package :: "string option"
  service_artifact :: "string option"
  servicePath :: string
  serviceName :: string
  getAllFunctions :: "string list"
  existsSync :: "string \<Rightarrow> bool"
  path_join :: "string list \<Rightarrow> string"
  stringify :: "api_data \<Rightarrow> string"
  JSON_stringify :: "web_response \<Rightarrow> string"
  sendApiRequest_reply :: "nat \<Rightarrow> http_method \<Rightarrow> string \<Rightarrow> request_body option \<Rightarrow> api_response reply"
  webApps_get_reply :: "nat \<Rightarrow> string \<Rightarrow> string \<Rightarrow> web_response reply"
  listApplicationSettings_reply :: "nat \<Rightarrow> string \<Rightarrow> string \<Rightarrow> (string \<rightharpoonup> string) option reply"
  blob_reply :: "nat \<Rightarrow> event \<Rightarrow> unit reply"
  generateBlobSasTokenUrl_reply :: "nat \<Rightarrow> string \<Rightarrow> string \<Rightarrow> string reply"
  getAccessToken_reply :: "nat \<Rightarrow> string reply"
  sendFile_reply :: "nat \<Rightarrow> string \<Rightarrow> string \<Rightarrow> string \<Rightarrow> unit reply"
  settles_first :: "nat \<Rightarrow> nat \<Rightarrow> nat"
  completes_first :: "nat \<Rightarrow> bool"

text \<open>The world: the calls issued so far, oldest first, their number, and the CLI log.\<close>

record world =
  trace :: "event list"
  clock :: nat
  logs :: "string list"

definition emit :: "event \<Rightarrow> world \<Rightarrow> world" where
  "emit e w = w\<lparr>trace := trace w @ [e], clock := Suc (clock w)\<rparr>"

definition sleep :: "nat \<Rightarrow> world \<Rightarrow> world" where
  "sleep ms w = w\<lparr>trace := trace w @ [Sleep ms]\<rparr>"

definition log :: "string \<Rightarrow> world \<Rightarrow> world" where
  "log msg w = w\<lparr>logs := logs w @ [msg]\<rparr>"

section \<open>Collaborators\<close>

definition sendApiRequest ::
  "env \<Rightarrow> http_method \<Rightarrow> string \<Rightarrow> request_body option \<Rightarrow> world \<Rightarrow> api_response reply \<times> world" where
  "sendApiRequest E m u b w = (sendApiRequest_reply E (clock w) m u b, emit (ApiRequest m u b) w)"


definition listApplicationSettings ::
  "env \<Rightarrow> string \<Rightarrow> string \<Rightarrow> world \<Rightarrow> (string \<rightharpoonup> string) option reply \<times> world" where
  "listApplicationSettings E rg n w =
     (listApplicationSettings_reply E (clock w) rg n, emit (ListApplicationSettings rg n) w)"

definition blob_call :: "env \<Rightarrow> event \<Rightarrow> world \<Rightarrow> unit reply \<times> world" where
  "blob_call E c w = (blob_reply E (clock w) c, emit c w)"

definition generateBlobSasTokenUrl :: "env \<Rightarrow> string \<Rightarrow> string \<Rightarrow> world \<Rightarrow> string reply \<times> world" where
  "generateBlobSasTokenUrl E c a w =
     (generateBlobSasTokenUrl_reply E (clock w) c a, emit (GenerateBlobSasTokenUrl c a) w)"

definition getAccessToken :: "env \<Rightarrow> world \<Rightarrow> string reply \<times> world" where
  "getAccessToken E w = (getAccessToken_reply E (clock w), emit GetAccessToken w)"

definition sendFile :: "env \<Rightarrow> string \<Rightarrow> string \<Rightarrow> string \<Rightarrow> world \<Rightarrow> unit reply \<times> world" where
  "sendFile E uri auth file w = (sendFile_reply E (clock w) uri auth file, emit (SendFile uri auth file) w)"

text \<open>
  Modelled from the spec: \<^verbatim>\<open>Guard.null\<close> (shared/guard) is not among the sources. The
  spec has the operations that require a host fail at once on a null host (a
  precondition violation, neither retried nor wrapped).
\<close>

definition Guard_null :: "'a option \<Rightarrow> error + 'a" where
  "Guard_null v = (case v of None \<Rightarrow> Inl PreconditionViolation | Some x \<Rightarrow> Inr x)"

text \<open>
  Modelled from the spec: \<^verbatim>\<open>Guard.empty\<close> (shared/guard) is not among the sources. The
  spec has the operations that require a name fail at once on an empty name.
\<close>

definition Guard_empty :: "string \<Rightarrow> error + string" where
  "Guard_empty v = (if v = [] then Inl PreconditionViolation else Inr v)"

text \<open>
  Modelled from the spec: the outcome of one invocation of a probe of the poller
  (\<^verbatim>\<open>Utils.runWithRetry\<close>, shared/utils, is not among the sources). The spec's probe
  returns a value, signals a retryable condition, or fails otherwise.
\<close>

datatype 'a attempt = Returned 'a | Retryable error | Failed error

text \<open>
  Modelled from the spec: the loop of \<^verbatim>\<open>Utils.runWithRetry\<close>. The poller invokes the probe
  at most a given number of times. On a retryable signal it sleeps the fixed delay and
  invokes the probe again; when the attempts are used up it surfaces the last failure;
  another failure is propagated at once. The budget of 30 attempts and 30 seconds is 15
  minutes in the spec, so a sleep follows every retryable signal, the last one too.
  A probe is a closure over local variables of its caller: they are the component \<open>'l\<close>.
\<close>

primrec retry_loop ::
  "('l \<Rightarrow> world \<Rightarrow> 'a attempt \<times> 'l \<times> world) \<Rightarrow> nat \<Rightarrow> nat \<Rightarrow> error \<Rightarrow> 'l \<Rightarrow> world
     \<Rightarrow> (error + 'a) \<times> 'l \<times> world" where
  "retry_loop probe interval 0 lastError l w = (Inl lastError, l, w)"
| "retry_loop probe interval (Suc n) lastError l w =
     (case probe l w of
        (Returned v, l1, w1) \<Rightarrow> (Inr v, l1, w1)
      | (Failed e, l1, w1) \<Rightarrow> (Inl e, l1, w1)
      | (Retryable e, l1, w1) \<Rightarrow> retry_loop probe interval n e l1 (sleep interval w1))"

text \<open>
  Modelled from the spec: \<^verbatim>\<open>Utils.runWithRetry\<close>, called with the probe, the attempt
  budget and the delay. With a budget of no attempt at all there is no failure to
  surface; the model then surfaces an error with an empty message.
\<close>

definition runWithRetry ::
  "('l \<Rightarrow> world \<Rightarrow> 'a attempt \<times> 'l \<times> world) \<Rightarrow> nat \<Rightarrow> nat \<Rightarrow> 'l \<Rightarrow> world
     \<Rightarrow> (error + 'a) \<times> 'l \<times> world" where
  "runWithRetry probe maxRetries retryWaitInterval l w =
     retry_loop probe retryWaitInterval maxRetries (Error []) l w"

section \<open>FunctionAppService\<close>

definition retryCount :: nat where
  "retryCount = 30"

definition retryInterval :: nat where
  "retryInterval = 30000"

text \<open>Decimal digits of a number, for the retry counter in the log.\<close>

fun string_of_nat :: "nat \<Rightarrow> string" where
  "string_of_nat n =
     (if n < 10 then [''0123456789'' ! n]
      else string_of_nat (n div 10) @ [''0123456789'' ! (n mod 10)])"

declare string_of_nat.simps [simp del]

text \<open>
  \<^verbatim>\<open>listFunctions\<close>. The probe is the closure passed to the poller; \<open>retries\<close> is the
  local counter it increments. A request the transport rejects, and a body without a
  \<^verbatim>\<open>value\<close> array, are failures other than the "not ready" signal.
\<close>

definition not_ready_message :: "string \<Rightarrow> string" where
  "not_ready_message response =
     ''The function app is taking longer than usual to be provisioned. Please try again soon.''
     @ [CHR 0x0A] @ ''            Response error data: '' @ [CHR 0x0A] @ response"

definition listFunctions_not_ready ::
  "env \<Rightarrow> api_response \<Rightarrow> nat \<Rightarrow> world \<Rightarrow> api_response attempt \<times> nat \<times> world" where
  "listFunctions_not_ready E listFunctionsResponse retries w =
     (let w1 = log (''-> Function App not ready. Retry '' @ string_of_nat retries @ '' of ''
                     @ string_of_nat retryCount @ ''...'') w;
          response = stringify E (data listFunctionsResponse)
      in (Retryable (Error (not_ready_message response)), Suc retries, w1))"

definition listFunctions_probe ::
  "env \<Rightarrow> string \<Rightarrow> nat \<Rightarrow> world \<Rightarrow> api_response attempt \<times> nat \<times> world" where
  "listFunctions_probe E getTokenUrl retries w =
     (case sendApiRequest E GET getTokenUrl None w of
        (Rejected e, w1) \<Rightarrow> (Failed e, retries, w1)
      | (Resolved listFunctionsResponse, w1) \<Rightarrow>
          if status listFunctionsResponse \<noteq> 200
          then listFunctions_not_ready E listFunctionsResponse retries w1
          else (case data_value (data listFunctionsResponse) of
                  Inl e \<Rightarrow> (Failed e, retries, w1)
                | Inr v \<Rightarrow>
                    if length v = 0
                    then listFunctions_not_ready E listFunctionsResponse retries w1
                    else (Returned listFunctionsResponse, retries, w1)))"

definition functions_url :: "env \<Rightarrow> site \<Rightarrow> string" where
  "functions_url E functionApp = baseUrl E @ site_id functionApp @ ''/functions?api-version=2016-08-01''"

definition listFunctions :: "env \<Rightarrow> site option \<Rightarrow> world \<Rightarrow> (error + function_envelope list) \<times> world" where
  "listFunctions E functionApp w =
     (case Guard_null functionApp of
        Inl e \<Rightarrow> (Inl e, w)
      | Inr app \<Rightarrow>
          (case runWithRetry (listFunctions_probe E (functions_url E app)) retryCount retryInterval 0 w of
             (Inr response, _, w1) \<Rightarrow>
               (case data_value (data response) of
                  Inl e \<Rightarrow> (Inl e, log ''-> Unable to retrieve function app list'' w1)
                | Inr v \<Rightarrow> (Inr (map properties v), w1))
           | (Inl e, _, w1) \<Rightarrow> (Inl e, log ''-> Unable to retrieve function app list'' w1)))"

text \<open>
  The white space of \<^verbatim>\<open>/\s/\<close>. Strings are byte strings in UTF-8: a white-space
  character of the ASCII range is one byte, U+00A0 is two bytes, and U+1680, U+2000 to
  U+200A, U+2028, U+2029, U+202F, U+205F, U+3000 and U+FEFF are three bytes each.
\<close>

definition white_space_1 :: "string list" where
  "white_space_1 = [[CHR 0x09], [CHR 0x0A], [CHR 0x0B], [CHR 0x0C], [CHR 0x0D], [CHR 0x20]]"

definition white_space_2 :: "string list" where
  "white_space_2 = [[CHR 0xC2, CHR 0xA0]]"

definition white_space_3 :: "string list" where
  "white_space_3 =
     [[CHR 0xE1, CHR 0x9A, CHR 0x80],
      [CHR 0xE2, CHR 0x80, CHR 0x80], [CHR 0xE2, CHR 0x80, CHR 0x81], [CHR 0xE2, CHR 0x80, CHR 0x82],
      [CHR 0xE2, CHR 0x80, CHR 0x83], [CHR 0xE2, CHR 0x80, CHR 0x84], [CHR 0xE2, CHR 0x80, CHR 0x85],
      [CHR 0xE2, CHR 0x80, CHR 0x86], [CHR 0xE2, CHR 0x80, CHR 0x87], [CHR 0xE2, CHR 0x80, CHR 0x88],
      [CHR 0xE2, CHR 0x80, CHR 0x89], [CHR 0xE2, CHR 0x80, CHR 0x8A],
      [CHR 0xE2, CHR 0x80, CHR 0xA8], [CHR 0xE2, CHR 0x80, CHR 0xA9], [CHR 0xE2, CHR 0x80, CHR 0xAF],
      [CHR 0xE2, CHR 0x81, CHR 0x9F], [CHR 0xE3, CHR 0x80, CHR 0x80], [CHR 0xEF, CHR 0xBB, CHR 0xBF]]"

text \<open>\<^verbatim>\<open>s.replace(/\s/g, "-")\<close>: every white-space character becomes one dash.\<close>

fun replace_white_space :: "string \<Rightarrow> string" where
  "replace_white_space [] = []"
| "replace_white_space (c # cs) =
     (if [c] \<in> set white_space_1 then CHR ''-'' # replace_white_space cs
      else if c # take 1 cs \<in> set white_space_2 then CHR ''-'' # replace_white_space (drop 1 cs)
      else if c # take 2 cs \<in> set white_space_3 then CHR ''-'' # replace_white_space (drop 2 cs)
      else c # replace_white_space cs)"

text \<open>\<^verbatim>\<open>FunctionAppResource.getResourceName\<close>.\<close>

definition getResourceName :: "env \<Rightarrow> string" where
  "getResourceName E =
     (let safeServiceName = replace_white_space (config_service E)
      in safeServiceName @ ''-app-'' @ config_stage E)"


text \<open>The address of one unit; \<^verbatim>\<open>deleteFunction\<close> and \<^verbatim>\<open>getFunction\<close> build the same one.\<close>

definition function_url :: "env \<Rightarrow> site \<Rightarrow> string \<Rightarrow> string" where
  "function_url E functionApp functionName =
     baseUrl E @ site_id functionApp @ ''/functions/'' @ functionName @ ''?api-version=2016-08-01''"

definition deleteFunction :: "env \<Rightarrow> site option \<Rightarrow> string \<Rightarrow> world \<Rightarrow> (error + api_response) \<times> world" where
  "deleteFunction E functionApp functionName w =
     (case Guard_null functionApp of
        Inl e \<Rightarrow> (Inl e, w)
      | Inr app \<Rightarrow>
          (case Guard_empty functionName of
             Inl e \<Rightarrow> (Inl e, w)
           | Inr _ \<Rightarrow>
               (let w1 = log (''-> Deleting function: '' @ functionName) w;
                    deleteFunctionUrl = function_url E app functionName
                in case sendApiRequest E DELETE deleteFunctionUrl None w1 of
                     (Rejected e, w2) \<Rightarrow> (Inl e, w2)
                   | (Resolved r, w2) \<Rightarrow> (Inr r, w2))))"

definition syncTriggers_url :: "env \<Rightarrow> site \<Rightarrow> string" where
  "syncTriggers_url E functionApp =
     baseUrl E @ ''/subscriptions/'' @ subscriptionId E
     @ ''/resourceGroups/'' @ resourceGroup E @ ''/providers/Microsoft.Web/sites/'' @ site_name functionApp
     @ ''/syncfunctiontriggers?api-version=2016-08-01''"

definition syncTriggers ::
  "env \<Rightarrow> site option \<Rightarrow> (string \<rightharpoonup> string) option \<Rightarrow> world \<Rightarrow> (error + api_response) \<times> world" where
  "syncTriggers E functionApp props w =
     (case Guard_null functionApp of
        Inl e \<Rightarrow> (Inl e, w)
      | Inr app \<Rightarrow>
          (let w1 = log ''Syncing function triggers'' w
           in case sendApiRequest E POST (syncTriggers_url E app) (Some (Properties props)) w1 of
                (Rejected err, w2) \<Rightarrow>
                  (Inl (Error (''Error syncing function app triggers: '' @ error_to_string err)), w2)
              | (Resolved r, w2) \<Rightarrow> (Inr r, w2)))"

text \<open>
  A promise as its creator hands it over, before anyone awaits it: already rejected
  (the async function threw before its first \<^verbatim>\<open>await\<close>), or waiting for the one call it
  has issued, with the reply that call is going to get.
\<close>

datatype 'a promise = RejectedAlready error | Outstanding "'a reply"

text \<open>
  \<^verbatim>\<open>deleteFunction\<close> up to its \<^verbatim>\<open>await\<close>: the promise a caller holds who does not
  await it. Awaiting it gives \<open>deleteFunction\<close> (lemma \<open>deleteFunction_await\<close>).
\<close>

definition deleteFunction_promise ::
  "env \<Rightarrow> site option \<Rightarrow> string \<Rightarrow> world \<Rightarrow> api_response promise \<times> world" where
  "deleteFunction_promise E functionApp functionName w =
     (case Guard_null functionApp of
        Inl e \<Rightarrow> (RejectedAlready e, w)
      | Inr app \<Rightarrow>
          (case Guard_empty functionName of
             Inl e \<Rightarrow> (RejectedAlready e, w)
           | Inr _ \<Rightarrow>
               (let w1 = log (''-> Deleting function: '' @ functionName) w;
                    deleteFunctionUrl = function_url E app functionName
                in case sendApiRequest E DELETE deleteFunctionUrl None w1 of
                     (r, w2) \<Rightarrow> (Outstanding r, w2))))"

text \<open>
  \<^verbatim>\<open>Promise.all\<close> over promises that each wait for at most one call. It rejects with the
  rejection that comes first in time: a promise that is rejected already comes before
  every outstanding one, and the first of those in the list is the first whose reaction
  runs; among the outstanding requests that will be rejected, the environment says
  which is rejected first. With no rejection it fulfils with all values, in list
  order.
\<close>

fun rejected_already :: "'a promise list \<Rightarrow> error list" where
  "rejected_already [] = []"
| "rejected_already (RejectedAlready e # ps) = e # rejected_already ps"
| "rejected_already (Outstanding r # ps) = rejected_already ps"

fun rejected_later :: "'a promise list \<Rightarrow> error list" where
  "rejected_later [] = []"
| "rejected_later (Outstanding (Rejected e) # ps) = e # rejected_later ps"
| "rejected_later (p # ps) = rejected_later ps"

fun fulfilled :: "'a promise list \<Rightarrow> 'a list" where
  "fulfilled [] = []"
| "fulfilled (Outstanding (Resolved v) # ps) = v # fulfilled ps"
| "fulfilled (p # ps) = fulfilled ps"

definition Promise_all :: "env \<Rightarrow> world \<Rightarrow> 'a promise list \<Rightarrow> error + 'a list" where
  "Promise_all E w ps =
     (case rejected_already ps of
        e # _ \<Rightarrow> Inl e
      | [] \<Rightarrow>
          (case rejected_later ps of
             [] \<Rightarrow> Inr (fulfilled ps)
           | e # es \<Rightarrow> Inl ((e # es) ! (settles_first E (clock w) (length (e # es)) mod length (e # es)))))"

text \<open>
  \<^verbatim>\<open>cleanUp\<close>. The loop starts one deletion per selected unit and keeps its promise; each
  deletion runs up to its request before the next one starts, so the requests leave in
  list order, all of them before \<^verbatim>\<open>Promise.all\<close> is called.
\<close>

fun cleanUp_forEach ::
  "env \<Rightarrow> site option \<Rightarrow> string list \<Rightarrow> function_envelope list \<Rightarrow> world
     \<Rightarrow> api_response promise list \<times> world" where
  "cleanUp_forEach E functionApp serviceFunctions [] w = ([], w)"
| "cleanUp_forEach E functionApp serviceFunctions (func # rest) w =
     (if name func \<in> set serviceFunctions
      then (case deleteFunction_promise E functionApp (name func) w of
              (p, w1) \<Rightarrow>
                (case cleanUp_forEach E functionApp serviceFunctions rest w1 of
                   (ps, w2) \<Rightarrow> (p # ps, w2)))
      else cleanUp_forEach E functionApp serviceFunctions rest w)"

definition cleanUp :: "env \<Rightarrow> site option \<Rightarrow> world \<Rightarrow> (error + api_response list) \<times> world" where
  "cleanUp E functionApp w =
     (case Guard_null functionApp of
        Inl e \<Rightarrow> (Inl e, w)
      | Inr _ \<Rightarrow>
          (let w1 = log ''Cleaning up existing functions'' w;
               serviceFunctions = getAllFunctions E
           in case listFunctions E functionApp w1 of
                (Inl e, w2) \<Rightarrow> (Inl e, w2)
              | (Inr deployedFunctions, w2) \<Rightarrow>
                  (case cleanUp_forEach E functionApp serviceFunctions deployedFunctions w2 of
                     (deleteTasks, w3) \<Rightarrow> (Promise_all E w3 deleteTasks, w3))))"



text \<open>\<^verbatim>\<open>getFunctionZipFile\<close>; \<^verbatim>\<open>path.join\<close> is the environment's.\<close>

definition truthy :: "string option \<Rightarrow> bool" where
  "truthy v = (case v of None \<Rightarrow> False | Some s \<Rightarrow> s \<noteq> [])"

definition getFunctionZipFile :: "env \<Rightarrow> string" where
  "getFunctionZipFile E =
     (let functionZipFile = (if truthy (option_package E) then option_package E else service_artifact E)
      in case functionZipFile of
           None \<Rightarrow> path_join E [servicePath E, ''.serverless'', serviceName E @ ''.zip'']
         | Some f \<Rightarrow>
             if f = [] then path_join E [servicePath E, ''.serverless'', serviceName E @ ''.zip'']
             else f)"

text \<open>\<^verbatim>\<open>updateFunctionAppSetting\<close>: the fetch stands before \<^verbatim>\<open>try\<close>, the PUT inside.\<close>

definition appsettings_url :: "env \<Rightarrow> site \<Rightarrow> string" where
  "appsettings_url E functionApp =
     baseUrl E @ ''/subscriptions/'' @ subscriptionId E @ ''/resourceGroups/'' @ resourceGroup E
     @ ''/providers/Microsoft.Web/sites/'' @ site_name functionApp
     @ ''/config/appsettings?api-version=2016-08-01''"

definition updateFunctionAppSetting ::
  "env \<Rightarrow> site \<Rightarrow> string \<Rightarrow> string \<Rightarrow> world \<Rightarrow> (error + api_data) \<times> world" where
  "updateFunctionAppSetting E functionApp setting v w =
     (case listApplicationSettings E (resourceGroup E) (site_name functionApp) w of
        (Rejected e, w1) \<Rightarrow> (Inl e, w1)
      | (Resolved None, w1) \<Rightarrow> (Inl TypeError, w1)
      | (Resolved (Some props), w1) \<Rightarrow>
          (let props' = props(setting \<mapsto> v)
           in case sendApiRequest E PUT (appsettings_url E functionApp) (Some (Properties (Some props'))) w1 of
                (Rejected err, w2) \<Rightarrow>
                  (Inl (Error (''Failed to update function app settings: '' @ error_to_string err)), w2)
              | (Resolved response, w2) \<Rightarrow> (Inr (data response), w2)))"

text \<open>\<^verbatim>\<open>uploadZippedArtifactToBlobStorage\<close>: three calls to the blob service, in order.\<close>

definition uploadZippedArtifactToBlobStorage :: "env \<Rightarrow> string \<Rightarrow> world \<Rightarrow> (error + unit) \<times> world" where
  "uploadZippedArtifactToBlobStorage E functionZipFile w =
     (case blob_call E BlobInitialize w of
        (Rejected e, w1) \<Rightarrow> (Inl e, w1)
      | (Resolved _, w1) \<Rightarrow>
          (case blob_call E (BlobCreateContainerIfNotExists (deployment_container E)) w1 of
             (Rejected e, w2) \<Rightarrow> (Inl e, w2)
           | (Resolved _, w2) \<Rightarrow>
               (case blob_call E (BlobUploadFile functionZipFile (deployment_container E) (artifactName E)) w2 of
                  (Rejected e, w3) \<Rightarrow> (Inl e, w3)
                | (Resolved _, w3) \<Rightarrow> (Inr (), w3))))"

text \<open>\<^verbatim>\<open>getScmDomain\<close>.\<close>

definition getScmDomain :: "site \<Rightarrow> string option" where
  "getScmDomain functionApp =
     find (\<lambda>hostName. sublist ''.scm.'' hostName \<and> suffix ''.azurewebsites.net'' hostName)
       (enabledHostNames functionApp)"

text \<open>
  \<^verbatim>\<open>uploadZippedArfifactToFunctionApp\<close>. The test of the file is local
  (\<^verbatim>\<open>fs.existsSync\<close>); the token and the upload are the calls that follow it.
\<close>

definition uploadZippedArfifactToFunctionApp ::
  "env \<Rightarrow> site \<Rightarrow> string \<Rightarrow> world \<Rightarrow> (error + unit) \<times> world" where
  "uploadZippedArfifactToFunctionApp E functionApp functionZipFile w =
     (let scmDomain = getScmDomain functionApp;
          w1 = log (''Deploying zip file to function app: '' @ site_name functionApp) w
      in if \<not> (functionZipFile \<noteq> [] \<and> existsSync E functionZipFile)
         then (Inl (Error ''No zip file found for function app''), w1)
         else
           (let w2 = log (''-> Deploying service package @ '' @ functionZipFile) w1;
                uri = ''https://'' @ (case scmDomain of None \<Rightarrow> ''undefined'' | Some d \<Rightarrow> d)
                      @ ''/api/zipdeploy/''
            in case getAccessToken E w2 of
                 (Rejected e, w3) \<Rightarrow> (Inl e, w3)
               | (Resolved token, w3) \<Rightarrow>
                   (case sendFile E uri (''Bearer '' @ token) functionZipFile w3 of
                      (Rejected e, w4) \<Rightarrow> (Inl e, w4)
                    | (Resolved _, w4) \<Rightarrow>
                        (Inr (), log ''-> Function package uploaded successfully'' w4))))"

text \<open>
  \<^verbatim>\<open>getFunctionHttpTriggerConfig\<close>. \<^verbatim>\<open>a || b\<close> takes \<^verbatim>\<open>b\<close> when \<^verbatim>\<open>a\<close> is
  \<^verbatim>\<open>undefined\<close> or the empty string; an empty array is not falsy.
\<close>

definition getFunctionHttpTriggerConfig :: "site \<Rightarrow> function_envelope \<Rightarrow> http_trigger_config option" where
  "getFunctionHttpTriggerConfig functionApp functionConfig =
     (case find (\<lambda>b. binding_type b = ''httpTrigger'') (bindings functionConfig) of
        None \<Rightarrow> None
      | Some httpTrigger \<Rightarrow>
          (let route' = (case route httpTrigger of
                           None \<Rightarrow> name functionConfig
                         | Some r \<Rightarrow> if r = [] then name functionConfig else r);
               url' = defaultHostName functionApp @ ''/api/'' @ route'
           in Some \<lparr>cfg_authLevel = authLevel httpTrigger,
                    cfg_methods = (case methods httpTrigger of None \<Rightarrow> [''*''] | Some ms \<Rightarrow> ms),
                    url = url',
                    cfg_route = route httpTrigger,
                    cfg_name = name functionConfig\<rparr>))"

text \<open>\<^verbatim>\<open>String.prototype.toUpperCase\<close> on ASCII letters.\<close>

definition toUpperCase :: "string \<Rightarrow> string" where
  "toUpperCase s =
     map (\<lambda>c. case map_of (zip ''abcdefghijklmnopqrstuvwxyz'' ''ABCDEFGHIJKLMNOPQRSTUVWXYZ'') c of
                 None \<Rightarrow> c
               | Some u \<Rightarrow> u) s"

text \<open>
  \<^verbatim>\<open>uploadFunctions\<close>, in three parts: the external-package variant, the direct-push
  variant, and the report. The report upper-cases the first method of each trigger for
  the log line; with an empty method list that read throws.
\<close>

definition uploadFunctions_external :: "env \<Rightarrow> site \<Rightarrow> string \<Rightarrow> world \<Rightarrow> (error + unit) \<times> world" where
  "uploadFunctions_external E functionApp functionZipFile w =
     (let w0 = log ''Updating function app setting to run from external package...'' w
      in case uploadZippedArtifactToBlobStorage E functionZipFile w0 of
           (Inl e, w1) \<Rightarrow> (Inl e, w1)
         | (Inr _, w1) \<Rightarrow>
             (case generateBlobSasTokenUrl E (deployment_container E) (artifactName E) w1 of
                (Rejected e, w2) \<Rightarrow> (Inl e, w2)
              | (Resolved sasUrl, w2) \<Rightarrow>
                  (case updateFunctionAppSetting E functionApp (runFromPackageSetting E) sasUrl w2 of
                     (Inl e, w3) \<Rightarrow> (Inl e, w3)
                   | (Inr response, w3) \<Rightarrow>
                       (case settings_properties response of
                          Inl e \<Rightarrow> (Inl e, w3)
                        | Inr props \<Rightarrow>
                            (case syncTriggers E (Some functionApp) props w3 of
                               (Inl e, w4) \<Rightarrow> (Inl e, w4)
                             | (Inr _, w4) \<Rightarrow> (Inr (), w4))))))"

text \<open>
  The direct-push variant starts the archival upload and the push to the host one after
  the other and waits for both with \<^verbatim>\<open>Promise.all\<close>. Each of the two runs up to its
  first call when it is started; from then on the one whose outstanding call completes
  first takes its next step, which is the environment's choice. The progress of one of
  the two is the call it waits for, with the reply that call is going to get, or its
  outcome. Run alone, the two are \<open>uploadZippedArtifactToBlobStorage\<close> and
  \<open>uploadZippedArfifactToFunctionApp\<close> (lemmas \<open>blob_upload_alone\<close> and
  \<open>push_upload_alone\<close>). \<^verbatim>\<open>Promise.all\<close> rejects with the first rejection in time and
  the caller goes on at that moment: what the other upload does later is not part of
  the run.
\<close>

datatype blob_progress =
    BlobInitializing "unit reply"
  | BlobCreating "unit reply"
  | BlobUploading "unit reply"
  | BlobSettled "error + unit"

datatype push_progress =
    PushAuthorizing "string reply"
  | PushSending "unit reply"
  | PushSettled "error + unit"

definition blob_start :: "env \<Rightarrow> world \<Rightarrow> blob_progress \<times> world" where
  "blob_start E w = (case blob_call E BlobInitialize w of (r, w1) \<Rightarrow> (BlobInitializing r, w1))"

fun blob_step :: "env \<Rightarrow> string \<Rightarrow> blob_progress \<Rightarrow> world \<Rightarrow> blob_progress \<times> world" where
  "blob_step E functionZipFile (BlobInitializing (Rejected e)) w = (BlobSettled (Inl e), w)"
| "blob_step E functionZipFile (BlobInitializing (Resolved _)) w =
     (case blob_call E (BlobCreateContainerIfNotExists (deployment_container E)) w of
        (r, w1) \<Rightarrow> (BlobCreating r, w1))"
| "blob_step E functionZipFile (BlobCreating (Rejected e)) w = (BlobSettled (Inl e), w)"
| "blob_step E functionZipFile (BlobCreating (Resolved _)) w =
     (case blob_call E (BlobUploadFile functionZipFile (deployment_container E) (artifactName E)) w of
        (r, w1) \<Rightarrow> (BlobUploading r, w1))"
| "blob_step E functionZipFile (BlobUploading (Rejected e)) w = (BlobSettled (Inl e), w)"
| "blob_step E functionZipFile (BlobUploading (Resolved _)) w = (BlobSettled (Inr ()), w)"
| "blob_step E functionZipFile (BlobSettled r) w = (BlobSettled r, w)"

definition push_start :: "env \<Rightarrow> site \<Rightarrow> string \<Rightarrow> world \<Rightarrow> push_progress \<times> world" where
  "push_start E functionApp functionZipFile w =
     (let scmDomain = getScmDomain functionApp;
          w1 = log (''Deploying zip file to function app: '' @ site_name functionApp) w
      in if \<not> (functionZipFile \<noteq> [] \<and> existsSync E functionZipFile)
         then (PushSettled (Inl (Error ''No zip file found for function app'')), w1)
         else
           (let w2 = log (''-> Deploying service package @ '' @ functionZipFile) w1
            in case getAccessToken E w2 of (r, w3) \<Rightarrow> (PushAuthorizing r, w3)))"

fun push_step :: "env \<Rightarrow> site \<Rightarrow> string \<Rightarrow> push_progress \<Rightarrow> world \<Rightarrow> push_progress \<times> world" where
  "push_step E functionApp functionZipFile (PushAuthorizing (Rejected e)) w = (PushSettled (Inl e), w)"
| "push_step E functionApp functionZipFile (PushAuthorizing (Resolved token)) w =
     (let uri = ''https://'' @ (case getScmDomain functionApp of None \<Rightarrow> ''undefined'' | Some d \<Rightarrow> d)
                @ ''/api/zipdeploy/''
      in case sendFile E uri (''Bearer '' @ token) functionZipFile w of
           (r, w1) \<Rightarrow> (PushSending r, w1))"
| "push_step E functionApp functionZipFile (PushSending (Rejected e)) w = (PushSettled (Inl e), w)"
| "push_step E functionApp functionZipFile (PushSending (Resolved _)) w =
     (PushSettled (Inr ()), log ''-> Function package uploaded successfully'' w)"
| "push_step E functionApp functionZipFile (PushSettled r) w = (PushSettled r, w)"

fun blob_rank :: "blob_progress \<Rightarrow> nat" where
  "blob_rank (BlobInitializing _) = 3"
| "blob_rank (BlobCreating _) = 2"
| "blob_rank (BlobUploading _) = 1"
| "blob_rank (BlobSettled _) = 0"

fun push_rank :: "push_progress \<Rightarrow> nat" where
  "push_rank (PushAuthorizing _) = 2"
| "push_rank (PushSending _) = 1"
| "push_rank (PushSettled _) = 0"

fun blob_error :: "blob_progress \<Rightarrow> error option" where
  "blob_error (BlobSettled (Inl e)) = Some e"
| "blob_error _ = None"

fun push_error :: "push_progress \<Rightarrow> error option" where
  "push_error (PushSettled (Inl e)) = Some e"
| "push_error _ = None"

function Promise_all_uploads ::
  "env \<Rightarrow> site \<Rightarrow> string \<Rightarrow> blob_progress \<Rightarrow> push_progress \<Rightarrow> world \<Rightarrow> (error + unit) \<times> world" where
  "Promise_all_uploads E functionApp functionZipFile b p w =
     (case blob_error b of
        Some e \<Rightarrow> (Inl e, w)
      | None \<Rightarrow>
          (case push_error p of
             Some e \<Rightarrow> (Inl e, w)
           | None \<Rightarrow>
               if blob_rank b = 0 \<and> push_rank p = 0 then (Inr (), w)
               else if push_rank p = 0 \<or> (blob_rank b \<noteq> 0 \<and> completes_first E (clock w))
               then Promise_all_uploads E functionApp functionZipFile
                      (fst (blob_step E functionZipFile b w)) p (snd (blob_step E functionZipFile b w))
               else Promise_all_uploads E functionApp functionZipFile b
                      (fst (push_step E functionApp functionZipFile p w))
                      (snd (push_step E functionApp functionZipFile p w))))"
  by pat_completeness auto
termination
proof -
  have blob: "0 < blob_rank b \<Longrightarrow> blob_rank (fst (blob_step E z b w)) < blob_rank b" for E z b w
    by (cases "(E, z, b, w)" rule: blob_step.cases) (auto split: prod.splits)
  have push: "0 < push_rank p \<Longrightarrow> push_rank (fst (push_step E a z p w)) < push_rank p" for E a z p w
    by (cases "(E, a, z, p, w)" rule: push_step.cases) (auto simp: Let_def split: prod.splits)
  show ?thesis
    by (relation "measure (\<lambda>(E, a, z, b, p, w). blob_rank b + push_rank p)") (auto simp: blob push case_prod_beta)
qed

declare Promise_all_uploads.simps [simp del]

definition uploadFunctions_direct :: "env \<Rightarrow> site \<Rightarrow> string \<Rightarrow> world \<Rightarrow> (error + unit) \<times> world" where
  "uploadFunctions_direct E functionApp functionZipFile w =
     (case blob_start E w of
        (b, w1) \<Rightarrow>
          (case push_start E functionApp functionZipFile w1 of
             (p, w2) \<Rightarrow> Promise_all_uploads E functionApp functionZipFile b p w2))"

fun uploadFunctions_forEach ::
  "site \<Rightarrow> string list \<Rightarrow> function_envelope list \<Rightarrow> world \<Rightarrow> (error + unit) \<times> world" where
  "uploadFunctions_forEach functionApp serverlessFunctions [] w = (Inr (), w)"
| "uploadFunctions_forEach functionApp serverlessFunctions (functionConfig # rest) w =
     (if name functionConfig \<in> set serverlessFunctions
      then (case getFunctionHttpTriggerConfig functionApp functionConfig of
              None \<Rightarrow> uploadFunctions_forEach functionApp serverlessFunctions rest w
            | Some httpConfig \<Rightarrow>
                (case cfg_methods httpConfig of
                   [] \<Rightarrow> (Inl TypeError, w)
                 | m # _ \<Rightarrow>
                     uploadFunctions_forEach functionApp serverlessFunctions rest
                       (log (''-> '' @ name functionConfig @ '': ['' @ toUpperCase m @ ''] ''
                             @ url httpConfig) w)))
      else uploadFunctions_forEach functionApp serverlessFunctions rest w)"

definition uploadFunctions_report :: "env \<Rightarrow> site \<Rightarrow> world \<Rightarrow> (error + unit) \<times> world" where
  "uploadFunctions_report E functionApp w =
     (let w0 = log ''Deployed serverless functions:'' w;
          serverlessFunctions = getAllFunctions E
      in case listFunctions E (Some functionApp) w0 of
           (Inl e, w1) \<Rightarrow> (Inl e, w1)
         | (Inr deployedFunctions, w1) \<Rightarrow>
             uploadFunctions_forEach functionApp serverlessFunctions deployedFunctions w1)"

definition uploadFunctions :: "env \<Rightarrow> site option \<Rightarrow> world \<Rightarrow> (error + unit) \<times> world" where
  "uploadFunctions E functionApp w =
     (case Guard_null functionApp of
        Inl e \<Rightarrow> (Inl e, w)
      | Inr app \<Rightarrow>
          (let w0 = log ''Deploying serverless functions...'' w;
               functionZipFile = getFunctionZipFile E
           in case (if deployment_external E
                    then uploadFunctions_external E app functionZipFile w0
                    else uploadFunctions_direct E app functionZipFile w0) of
                (Inl e, w1) \<Rightarrow> (Inl e, w1)
              | (Inr _, w1) \<Rightarrow> uploadFunctions_report E app w1))"

section \<open>Stages of a deployment\<close>

text \<open>
  What an event of the trace is, for the order of the external-package variant. The
  settings update is the only PUT and the trigger sync the only POST the service sends.
\<close>

datatype stage = StorageUpload | SettingsFetch | SettingsPut | TriggerSync

fun stage_of :: "event \<Rightarrow> stage option" where
  "stage_of (BlobUploadFile f c a) = Some StorageUpload"
| "stage_of (ListApplicationSettings rg n) = Some SettingsFetch"
| "stage_of (ApiRequest PUT u b) = Some SettingsPut"
| "stage_of (ApiRequest POST u b) = Some TriggerSync"
| "stage_of _ = None"

fun stages :: "event list \<Rightarrow> stage list" where
  "stages [] = []"
| "stages (e # es) = (case stage_of e of None \<Rightarrow> stages es | Some s \<Rightarrow> s # stages es)"

section \<open>Example hosts, units and environments\<close>

text \<open>Concrete inputs on which the theorems below are evaluated.\<close>

definition example_site :: site where
  "example_site =
     \<lparr>site_id = ''/sites/app'', site_name = ''app'', defaultHostName = ''h.example.net'',
      enabledHostNames = [''app.azurewebsites.net'', ''app.scm.azurewebsites.net'']\<rparr>"

definition example_env :: env where
  "example_env =
     \<lparr>baseUrl = ''https://management.azure.com'',
      subscriptionId = ''sub'',
      resourceGroup = ''rg'',
      artifactName = ''svc.zip'',
      config_service = ''my svc'',
      config_stage = ''dev'',
      deployment_external = False,
      deployment_container = ''deployment-artifacts'',
      runFromPackageSetting = ''WEBSITE_RUN_FROM_PACKAGE'',
      option_package = None,
      service_artifact = Some ''svc.zip'',
      servicePath = ''/work'',
      serviceName = ''svc'',
      getAllFunctions = [''a'', ''b''],
      existsSync = (\<lambda>p. p = ''svc.zip''),
      path_join = (\<lambda>ps. concat (map (\<lambda>p. CHR ''/'' # p) ps)),
      stringify = (\<lambda>d. case d of TextData t \<Rightarrow> t | _ \<Rightarrow> ''{}''),
      JSON_stringify = (\<lambda>r. ''{}''),
      sendApiRequest_reply = (\<lambda>t m u b. Resolved \<lparr>status = 200, data = NoData\<rparr>),
      webApps_get_reply = (\<lambda>t rg n. Resolved (SiteResponse example_site)),
      listApplicationSettings_reply = (\<lambda>t rg n. Resolved (Some Map.empty)),
      blob_reply = (\<lambda>t c. Resolved ()),
      generateBlobSasTokenUrl_reply = (\<lambda>t c a. Resolved ''https://blob/svc.zip?sas''),
      getAccessToken_reply = (\<lambda>t. Resolved ''token''),
      sendFile_reply = (\<lambda>t u a f. Resolved ()),
      settles_first = (\<lambda>t n. 0),
      completes_first = (\<lambda>t. even t)\<rparr>"

definition initial_world :: world where
  "initial_world = \<lparr>trace = [], clock = 0, logs = []\<rparr>"


definition settings_env :: env where
  "settings_env = example_env\<lparr>listApplicationSettings_reply :=
     (\<lambda>t rg n. Resolved (Some [''FUNCTIONS_WORKER_RUNTIME'' \<mapsto> ''node'',
                                 ''WEBSITE_RUN_FROM_PACKAGE'' \<mapsto> ''1'']))\<rparr>"

definition queue_binding :: binding where
  "queue_binding = \<lparr>binding_type = ''queueTrigger'', route = None, methods = None, authLevel = None\<rparr>"

definition empty_route_unit :: function_envelope where
  "empty_route_unit =
     \<lparr>name = ''f'',
      bindings = [\<lparr>binding_type = ''httpTrigger'', route = Some [], methods = None, authLevel = None\<rparr>]\<rparr>"

definition widgets_binding :: "string option \<Rightarrow> binding" where
  "widgets_binding a =
     \<lparr>binding_type = ''httpTrigger'', route = Some ''widgets/{id}'',
      methods = Some [''get'', ''post''], authLevel = a\<rparr>"

definition unit_a :: function_envelope where
  "unit_a = \<lparr>name = ''a'', bindings = []\<rparr>"

definition unit_b :: function_envelope where
  "unit_b = \<lparr>name = ''b'', bindings = []\<rparr>"

definition unit_c :: function_envelope where
  "unit_c = \<lparr>name = ''c'', bindings = []\<rparr>"

definition listing_env :: env where
  "listing_env = example_env\<lparr>sendApiRequest_reply :=
     (\<lambda>t m u b. if m = GET
                 then Resolved \<lparr>status = 200, data = ListData [\<lparr>properties = unit_a\<rparr>, \<lparr>properties = unit_b\<rparr>, \<lparr>properties = unit_c\<rparr>]\<rparr>
                 else Resolved \<lparr>status = 200, data = NoData\<rparr>)\<rparr>"

definition converging_env :: env where
  "converging_env = example_env\<lparr>sendApiRequest_reply :=
     (\<lambda>t m u b. if t = 0 then Resolved \<lparr>status = 503, data = TextData ''busy''\<rparr>
                 else if t = 1 then Resolved \<lparr>status = 200, data = ListData []\<rparr>
                 else Resolved \<lparr>status = 200,
                        data = ListData [\<lparr>properties = unit_a\<rparr>, \<lparr>properties = unit_b\<rparr>, \<lparr>properties = unit_c\<rparr>]\<rparr>)\<rparr>"

definition never_ready_env :: env where
  "never_ready_env = example_env\<lparr>sendApiRequest_reply :=
     (\<lambda>t m u b. Resolved \<lparr>status = 503, data = TextData ''busy''\<rparr>)\<rparr>"


definition failing_storage_env :: env where
  "failing_storage_env = example_env\<lparr>deployment_external := True,
     blob_reply := (\<lambda>t c. case c of BlobUploadFile f k a \<Rightarrow> Rejected (Rejection ''storage unavailable'')
                            | _ \<Rightarrow> Resolved ())\<rparr>"

definition external_env :: env where
  "external_env = example_env\<lparr>deployment_external := True,
     sendApiRequest_reply :=
       (\<lambda>t m u b. if m = GET
                   then Resolved \<lparr>status = 200, data = ListData [\<lparr>properties = unit_a\<rparr>]\<rparr>
                   else if m = PUT
                   then Resolved \<lparr>status = 200, data = SettingsData (Some [''WEBSITE_RUN_FROM_PACKAGE'' \<mapsto> ''https://blob/svc.zip?sas''])\<rparr>
                   else Resolved \<lparr>status = 200, data = NoData\<rparr>)\<rparr>"

section \<open>The world after a step\<close>

lemma trace_emit [simp]: "trace (emit e w) = trace w @ [e]"
  and clock_emit [simp]: "clock (emit e w) = Suc (clock w)"
  and logs_emit [simp]: "logs (emit e w) = logs w"
  by (simp_all add: emit_def)

lemma trace_log [simp]: "trace (log m w) = trace w"
  and clock_log [simp]: "clock (log m w) = clock w"
  and logs_log [simp]: "logs (log m w) = logs w @ [m]"
  by (simp_all add: log_def)

lemma trace_sleep [simp]: "trace (sleep d w) = trace w @ [Sleep d]"
  and clock_sleep [simp]: "clock (sleep d w) = clock w"
  and logs_sleep [simp]: "logs (sleep d w) = logs w"
  by (simp_all add: sleep_def)

lemma find_first: "\<forall>x\<in>set pre. \<not> P x \<Longrightarrow> P b \<Longrightarrow> find P (pre @ b # post) = Some b"
  by (induction pre) auto

lemma find_none: "\<forall>x\<in>set xs. \<not> P x \<Longrightarrow> find P xs = None"
  by (induction xs) auto

section \<open>Trigger extraction\<close>

text \<open>
  C3, as stated, fails where the route field is present and empty: \<^verbatim>\<open>route || name\<close>
  falls back to the unit's name, so the URL ends in the name and not in the (empty)
  route.
\<close>

theorem getFunctionHttpTriggerConfig_empty_route_counterexample:
  "map route (bindings empty_route_unit) = [Some []]
   \<and> map_option url (getFunctionHttpTriggerConfig example_site empty_route_unit)
       = Some ''h.example.net/api/f''
   \<and> map_option url (getFunctionHttpTriggerConfig example_site empty_route_unit)
       \<noteq> Some (defaultHostName example_site @ ''/api/'' @ [])"
  by (simp add: getFunctionHttpTriggerConfig_def example_site_def empty_route_unit_def)

text \<open>
  C3 (amended): a unit without a binding of type httpTrigger gives no result, and no
  error. Otherwise the first such binding decides: the URL is the host's default host
  name, then \<open>/api/\<close>, then the route, where the route is the binding's route field if
  it is present and not empty, and the unit's name otherwise; the methods are the
  binding's method list if present, and the one-element list of the wildcard otherwise.
\<close>

theorem getFunctionHttpTriggerConfig_result:
  "((\<forall>b \<in> set (bindings functionConfig). binding_type b \<noteq> ''httpTrigger'')
      \<longrightarrow> getFunctionHttpTriggerConfig functionApp functionConfig = None)
   \<and> (bindings functionConfig = pre @ b # post \<and> (\<forall>x \<in> set pre. binding_type x \<noteq> ''httpTrigger'')
        \<and> binding_type b = ''httpTrigger''
      \<longrightarrow> (\<exists>cfg. getFunctionHttpTriggerConfig functionApp functionConfig = Some cfg
             \<and> url cfg = defaultHostName functionApp @ ''/api/''
                   @ (case route b of None \<Rightarrow> name functionConfig
                      | Some r \<Rightarrow> if r = [] then name functionConfig else r)
             \<and> cfg_methods cfg = (case methods b of None \<Rightarrow> [''*''] | Some ms \<Rightarrow> ms)))"
  (is "?none \<and> ?found")
proof -
  have none: ?none
  proof
    assume "\<forall>b \<in> set (bindings functionConfig). binding_type b \<noteq> ''httpTrigger''"
    then have "find (\<lambda>b. binding_type b = ''httpTrigger'') (bindings functionConfig) = None"
      by (intro find_none) simp
    then show "getFunctionHttpTriggerConfig functionApp functionConfig = None"
      by (simp add: getFunctionHttpTriggerConfig_def)
  qed
  have found: ?found
  proof
    assume "bindings functionConfig = pre @ b # post
              \<and> (\<forall>x \<in> set pre. binding_type x \<noteq> ''httpTrigger'') \<and> binding_type b = ''httpTrigger''"
    then have "find (\<lambda>b. binding_type b = ''httpTrigger'') (bindings functionConfig) = Some b"
      using find_first [of pre "\<lambda>b. binding_type b = ''httpTrigger''" b post] by simp
    then show "\<exists>cfg. getFunctionHttpTriggerConfig functionApp functionConfig = Some cfg
             \<and> url cfg = defaultHostName functionApp @ ''/api/''
                   @ (case route b of None \<Rightarrow> name functionConfig
                      | Some r \<Rightarrow> if r = [] then name functionConfig else r)
             \<and> cfg_methods cfg = (case methods b of None \<Rightarrow> [''*''] | Some ms \<Rightarrow> ms)"
      by (simp add: getFunctionHttpTriggerConfig_def Let_def)
  qed
  from none found show ?thesis by (intro conjI)
qed

theorem getFunctionHttpTriggerConfig_result_witness:
  "getFunctionHttpTriggerConfig example_site \<lparr>name = ''q'', bindings = [queue_binding]\<rparr> = None
   \<and> (\<exists>cfg. getFunctionHttpTriggerConfig example_site
               \<lparr>name = ''g'', bindings = [queue_binding, widgets_binding None, queue_binding]\<rparr> = Some cfg
          \<and> url cfg = ''h.example.net/api/widgets/{id}'' \<and> cfg_methods cfg = [''get'', ''post''])
   \<and> (\<exists>cfg. getFunctionHttpTriggerConfig example_site
               \<lparr>name = ''g'', bindings = [\<lparr>binding_type = ''httpTrigger'', route = None, methods = None,
                                            authLevel = None\<rparr>]\<rparr> = Some cfg
          \<and> url cfg = ''h.example.net/api/g'' \<and> cfg_methods cfg = [''*''])"
  using getFunctionHttpTriggerConfig_result
          [of "\<lparr>name = ''q'', bindings = [queue_binding]\<rparr>" example_site "[]" queue_binding "[]"]
        getFunctionHttpTriggerConfig_result
          [of "\<lparr>name = ''g'', bindings = [queue_binding, widgets_binding None, queue_binding]\<rparr>"
              example_site "[queue_binding]" "widgets_binding None" "[queue_binding]"]
        getFunctionHttpTriggerConfig_result
          [of "\<lparr>name = ''g'', bindings = [\<lparr>binding_type = ''httpTrigger'', route = None, methods = None,
                                            authLevel = None\<rparr>]\<rparr>"
              example_site "[]" "\<lparr>binding_type = ''httpTrigger'', route = None, methods = None,
                                            authLevel = None\<rparr>" "[]"]
  by (simp add: queue_binding_def widgets_binding_def example_site_def)

text \<open>
  C4, as stated, fails: the extraction hands the methods on as the binding gives them,
  in lower case. (Upper case appears only in the log line of the deployment report, and
  only for the first method.)
\<close>

theorem getFunctionHttpTriggerConfig_widgets_counterexample:
  "map_option cfg_methods (getFunctionHttpTriggerConfig example_site
       \<lparr>name = ''widgets'', bindings = [widgets_binding (Some ''function'')]\<rparr>)
     = Some [''get'', ''post'']
   \<and> map_option cfg_methods (getFunctionHttpTriggerConfig example_site
       \<lparr>name = ''widgets'', bindings = [widgets_binding (Some ''function'')]\<rparr>)
     \<noteq> Some [''GET'', ''POST'']"
  by (simp add: getFunctionHttpTriggerConfig_def example_site_def widgets_binding_def)

text \<open>
  C4 (amended): for a unit whose first httpTrigger binding has route \<open>widgets/{id}\<close> and
  methods get, post, on a host whose default host name is \<open>h.example.net\<close>, the
  extraction yields the URL \<open>h.example.net/api/widgets/{id}\<close>, the methods get, post
  exactly as given (no change of case), and the auth level as given in the binding.
\<close>

theorem getFunctionHttpTriggerConfig_widgets:
  assumes "defaultHostName functionApp = ''h.example.net''"
    and "bindings functionConfig = pre @ widgets_binding a # post"
    and "\<forall>x \<in> set pre. binding_type x \<noteq> ''httpTrigger''"
  shows "getFunctionHttpTriggerConfig functionApp functionConfig =
           Some \<lparr>cfg_authLevel = a, cfg_methods = [''get'', ''post''],
                 url = ''h.example.net/api/widgets/{id}'', cfg_route = Some ''widgets/{id}'',
                 cfg_name = name functionConfig\<rparr>"
proof -
  have "find (\<lambda>b. binding_type b = ''httpTrigger'') (bindings functionConfig) = Some (widgets_binding a)"
    using assms(2,3) find_first [of pre "\<lambda>b. binding_type b = ''httpTrigger''" "widgets_binding a" post]
    by (simp add: widgets_binding_def)
  then show ?thesis using assms(1)
    by (simp add: getFunctionHttpTriggerConfig_def Let_def widgets_binding_def)
qed

theorem getFunctionHttpTriggerConfig_widgets_witness:
  "getFunctionHttpTriggerConfig example_site
       \<lparr>name = ''widgets'', bindings = [queue_binding, widgets_binding (Some ''function'')]\<rparr> =
     Some \<lparr>cfg_authLevel = Some ''function'', cfg_methods = [''get'', ''post''],
           url = ''h.example.net/api/widgets/{id}'', cfg_route = Some ''widgets/{id}'',
           cfg_name = ''widgets''\<rparr>"
  using getFunctionHttpTriggerConfig_widgets
          [of example_site "\<lparr>name = ''widgets'', bindings = [queue_binding, widgets_binding (Some ''function'')]\<rparr>"
              "[queue_binding]" "Some ''function''" "[]"]
  by (simp add: example_site_def queue_binding_def)

section \<open>Preconditions\<close>

text \<open>
  C7: \<^verbatim>\<open>deleteFunction\<close> with a null host or an empty name fails at once, before any
  request (the world is unchanged). With a host and a non-empty name the guards pass:
  exactly one DELETE request for the unit is issued, and the outcome is the transport's.
\<close>

theorem deleteFunction_precondition:
  "(functionApp = None \<or> functionName = []
      \<longrightarrow> deleteFunction E functionApp functionName w = (Inl PreconditionViolation, w))
   \<and> (functionApp = Some app \<and> functionName \<noteq> []
      \<longrightarrow> trace (snd (deleteFunction E functionApp functionName w))
            = trace w @ [ApiRequest DELETE (function_url E app functionName) None]
          \<and> fst (deleteFunction E functionApp functionName w)
            = (case sendApiRequest_reply E (clock w) DELETE (function_url E app functionName) None of
                 Resolved r \<Rightarrow> Inr r
               | Rejected e \<Rightarrow> Inl e))"
  by (auto simp: deleteFunction_def Guard_null_def Guard_empty_def sendApiRequest_def Let_def
           split: option.splits reply.splits)

theorem deleteFunction_precondition_witness:
  "deleteFunction example_env None ''f'' initial_world = (Inl PreconditionViolation, initial_world)
   \<and> deleteFunction example_env (Some example_site) [] initial_world
       = (Inl PreconditionViolation, initial_world)
   \<and> trace (snd (deleteFunction example_env (Some example_site) ''f'' initial_world))
       = [ApiRequest DELETE ''https://management.azure.com/sites/app/functions/f?api-version=2016-08-01'' None]
   \<and> fst (deleteFunction example_env (Some example_site) ''f'' initial_world)
       = Inr \<lparr>status = 200, data = NoData\<rparr>"
  using deleteFunction_precondition [of None "''f''" example_env initial_world example_site]
        deleteFunction_precondition [of "Some example_site" "[]" example_env initial_world example_site]
        deleteFunction_precondition [of "Some example_site" "''f''" example_env initial_world example_site]
  by (simp add: function_url_def example_env_def example_site_def initial_world_def)

text \<open>
  C6: the direct push with an artifact path that is empty or names no file fails with
  the error "No zip file found for function app"; no call has left the process by then
  (trace and clock are unchanged), and nothing is tried again.
\<close>

theorem uploadZippedArfifactToFunctionApp_missing_file:
  assumes "functionZipFile = [] \<or> \<not> existsSync E functionZipFile"
  shows "fst (uploadZippedArfifactToFunctionApp E functionApp functionZipFile w)
           = Inl (Error ''No zip file found for function app'')
         \<and> trace (snd (uploadZippedArfifactToFunctionApp E functionApp functionZipFile w)) = trace w
         \<and> clock (snd (uploadZippedArfifactToFunctionApp E functionApp functionZipFile w)) = clock w"
  using assms by (auto simp: uploadZippedArfifactToFunctionApp_def Let_def)

theorem uploadZippedArfifactToFunctionApp_missing_file_witness:
  "fst (uploadZippedArfifactToFunctionApp example_env example_site [] initial_world)
     = Inl (Error ''No zip file found for function app'')
   \<and> trace (snd (uploadZippedArfifactToFunctionApp example_env example_site [] initial_world)) = []
   \<and> \<not> existsSync example_env ''gone.zip''
   \<and> fst (uploadZippedArfifactToFunctionApp example_env example_site ''gone.zip'' initial_world)
       = Inl (Error ''No zip file found for function app'')
   \<and> trace (snd (uploadZippedArfifactToFunctionApp example_env example_site ''gone.zip'' initial_world)) = []"
proof -
  have gone: "\<not> existsSync example_env ''gone.zip''"
    by (simp add: example_env_def)
  from uploadZippedArfifactToFunctionApp_missing_file [of "[]" example_env example_site initial_world]
       uploadZippedArfifactToFunctionApp_missing_file [of "''gone.zip''" example_env example_site initial_world]
       gone
  show ?thesis by (simp add: initial_world_def)
qed

section \<open>Host lookup and settings\<close>



text \<open>
  C8: \<^verbatim>\<open>updateFunctionAppSetting\<close> fetches the settings map of the host and then pushes
  one map back: it maps the key \<open>k\<close> to the value \<open>v\<close> and every other key to what the
  fetch returned for it.
\<close>

theorem updateFunctionAppSetting_read_modify_write:
  assumes "listApplicationSettings_reply E (clock w) (resourceGroup E) (site_name functionApp)
             = Resolved (Some current)"
  shows "\<exists>pushed.
           trace (snd (updateFunctionAppSetting E functionApp k v w))
             = trace w @ [ListApplicationSettings (resourceGroup E) (site_name functionApp),
                          ApiRequest PUT (appsettings_url E functionApp) (Some (Properties (Some pushed)))]
           \<and> pushed k = Some v
           \<and> (\<forall>k'. k' \<noteq> k \<longrightarrow> pushed k' = current k')"
  using assms
  by (auto simp: updateFunctionAppSetting_def listApplicationSettings_def sendApiRequest_def Let_def
           split: reply.splits)

theorem updateFunctionAppSetting_read_modify_write_witness:
  "\<exists>pushed.
     trace (snd (updateFunctionAppSetting settings_env example_site ''WEBSITE_RUN_FROM_PACKAGE''
                   ''https://blob/svc.zip?sas'' initial_world))
       = [ListApplicationSettings ''rg'' ''app'',
          ApiRequest PUT (appsettings_url settings_env example_site) (Some (Properties (Some pushed)))]
     \<and> pushed ''WEBSITE_RUN_FROM_PACKAGE'' = Some ''https://blob/svc.zip?sas''
     \<and> pushed ''FUNCTIONS_WORKER_RUNTIME'' = Some ''node''
     \<and> pushed ''OTHER'' = None"
proof -
  have fetch: "listApplicationSettings_reply settings_env (clock initial_world) (resourceGroup settings_env)
                 (site_name example_site)
               = Resolved (Some [''FUNCTIONS_WORKER_RUNTIME'' \<mapsto> ''node'', ''WEBSITE_RUN_FROM_PACKAGE'' \<mapsto> ''1''])"
    by (simp add: settings_env_def)
  from updateFunctionAppSetting_read_modify_write
         [OF fetch, of "''WEBSITE_RUN_FROM_PACKAGE''" "''https://blob/svc.zip?sas''"]
  obtain pushed where
    p: "trace (snd (updateFunctionAppSetting settings_env example_site ''WEBSITE_RUN_FROM_PACKAGE''
                   ''https://blob/svc.zip?sas'' initial_world))
       = trace initial_world @ [ListApplicationSettings (resourceGroup settings_env) (site_name example_site),
          ApiRequest PUT (appsettings_url settings_env example_site) (Some (Properties (Some pushed)))]"
      "pushed ''WEBSITE_RUN_FROM_PACKAGE'' = Some ''https://blob/svc.zip?sas''"
      "\<forall>k'. k' \<noteq> ''WEBSITE_RUN_FROM_PACKAGE''
          \<longrightarrow> pushed k' = [''FUNCTIONS_WORKER_RUNTIME'' \<mapsto> ''node'', ''WEBSITE_RUN_FROM_PACKAGE'' \<mapsto> ''1''] k'"
    by blast
  from p(3) have "pushed ''FUNCTIONS_WORKER_RUNTIME'' = Some ''node''" and "pushed ''OTHER'' = None"
    by simp_all
  with p(1,2) show ?thesis
    by (intro exI [of _ pushed]) (simp add: settings_env_def example_env_def example_site_def initial_world_def)
qed

section \<open>Promises and the two concurrent uploads\<close>

lemma deleteFunction_await:
  "deleteFunction E functionApp functionName w =
     (case deleteFunction_promise E functionApp functionName w of
        (RejectedAlready e, w1) \<Rightarrow> (Inl e, w1)
      | (Outstanding (Rejected e), w1) \<Rightarrow> (Inl e, w1)
      | (Outstanding (Resolved r), w1) \<Rightarrow> (Inr r, w1))"
  by (simp add: deleteFunction_def deleteFunction_promise_def Let_def
           split: sum.splits prod.splits reply.splits)

lemma blob_upload_alone:
  "(case blob_start E w of
      (b0, w0) \<Rightarrow>
        (case blob_step E z b0 w0 of
           (b1, w1) \<Rightarrow> (case blob_step E z b1 w1 of (b2, w2) \<Rightarrow> blob_step E z b2 w2)))
   = (BlobSettled (fst (uploadZippedArtifactToBlobStorage E z w)),
      snd (uploadZippedArtifactToBlobStorage E z w))"
  by (simp add: blob_start_def uploadZippedArtifactToBlobStorage_def blob_call_def split: reply.splits)

lemma push_upload_alone:
  "(case push_start E a z w of
      (p0, w0) \<Rightarrow> (case push_step E a z p0 w0 of (p1, w1) \<Rightarrow> push_step E a z p1 w1))
   = (PushSettled (fst (uploadZippedArfifactToFunctionApp E a z w)),
      snd (uploadZippedArfifactToFunctionApp E a z w))"
  by (simp add: push_start_def uploadZippedArfifactToFunctionApp_def getAccessToken_def sendFile_def
        Let_def split: reply.splits)

lemma uploadFunctions_direct_missing_file:
  assumes "z = [] \<or> \<not> existsSync E z"
  shows "uploadFunctions_direct E a z w
           = (Inl (Error ''No zip file found for function app''),
              log (''Deploying zip file to function app: '' @ site_name a) (emit BlobInitialize w))"
  using assms
  by (auto simp: uploadFunctions_direct_def blob_start_def blob_call_def push_start_def Let_def
        Promise_all_uploads.simps)

lemma uploadFunctions_direct_example:
  "fst (uploadFunctions_direct example_env example_site ''svc.zip'' initial_world) = Inr ()
   \<and> trace (snd (uploadFunctions_direct example_env example_site ''svc.zip'' initial_world))
       = [BlobInitialize, GetAccessToken, BlobCreateContainerIfNotExists ''deployment-artifacts'',
          SendFile ''https://app.scm.azurewebsites.net/api/zipdeploy/'' ''Bearer token'' ''svc.zip'',
          BlobUploadFile ''svc.zip'' ''deployment-artifacts'' ''svc.zip'']"
  by (simp add: uploadFunctions_direct_def blob_start_def blob_call_def push_start_def Let_def
        getAccessToken_def sendFile_def getScmDomain_def Promise_all_uploads.simps
        example_env_def example_site_def initial_world_def sublist_code prefix_code suffix_def)

lemma getResourceName_example:
  "getResourceName (example_env\<lparr>config_service := ''my svc'' @ [CHR 0xC2, CHR 0xA0] @ ''x''
                                   @ [CHR 0xE2, CHR 0x80, CHR 0xA8] @ ''y''\<rparr>) = ''my-svc-x-y-app-dev''"
  by (simp add: getResourceName_def example_env_def white_space_1_def white_space_2_def white_space_3_def)

lemma Promise_all_rejected_already:
  "Promise_all E w [Outstanding (Rejected e1), RejectedAlready e2, Outstanding (Resolved v)] = Inl e2"
  by (simp add: Promise_all_def)

lemma Promise_all_fulfilled:
  "Promise_all E w [Outstanding (Resolved v1), Outstanding (Resolved v2)] = Inr [v1, v2]"
  by (simp add: Promise_all_def)

lemma Promise_all_settles_first:
  "settles_first E (clock w) 2 = 1
     \<Longrightarrow> Promise_all E w [Outstanding (Rejected e1), Outstanding (Resolved v), Outstanding (Rejected e2)] = Inl e2"
  by (simp add: Promise_all_def numeral_2_eq_2)

section \<open>Polling, lookup of one unit, reconciliation\<close>

lemma listFunctions_probe_not_ready:
  assumes "sendApiRequest_reply E (clock w) GET u None = Resolved r"
    and "status r \<noteq> 200 \<or> data r = ListData []"
  shows "\<exists>w'. listFunctions_probe E u l w
            = (Retryable (Error (not_ready_message (stringify E (data r)))), Suc l, w')
          \<and> trace w' = trace w @ [ApiRequest GET u None] \<and> clock w' = Suc (clock w)"
  using assms
  by (auto simp: listFunctions_probe_def listFunctions_not_ready_def sendApiRequest_def Let_def)

lemma listFunctions_probe_ready:
  assumes "sendApiRequest_reply E (clock w) GET u None = Resolved r"
    and "status r = 200" and "data r = ListData v" and "v \<noteq> []"
  shows "listFunctions_probe E u l w = (Returned r, l, emit (ApiRequest GET u None) w)"
  using assms
  by (auto simp: listFunctions_probe_def sendApiRequest_def)

lemma retry_loop_list_converges:
  assumes "k < n"
    and "\<forall>i<k. \<exists>r. sendApiRequest_reply E (clock w + i) GET u None = Resolved r
                    \<and> (status r \<noteq> 200 \<or> data r = ListData [])"
    and "sendApiRequest_reply E (clock w + k) GET u None = Resolved r"
    and "status r = 200" and "data r = ListData v" and "v \<noteq> []"
  shows "\<exists>l' w'. retry_loop (listFunctions_probe E u) d n e0 l w = (Inr r, l', w')
           \<and> trace w' = trace w @ concat (replicate k [ApiRequest GET u None, Sleep d])
                         @ [ApiRequest GET u None]"
  using assms
proof (induction k arbitrary: n w l e0)
  case 0
  then obtain m where n: "n = Suc m" by (cases n) auto
  from 0 have "listFunctions_probe E u l w = (Returned r, l, emit (ApiRequest GET u None) w)"
    by (intro listFunctions_probe_ready) auto
  then show ?case by (simp add: n)
next
  case (Suc k)
  then obtain m where n: "n = Suc m" and km: "k < m" by (cases n) auto
  from Suc.prems(2) obtain r0 where r0: "sendApiRequest_reply E (clock w) GET u None = Resolved r0"
      "status r0 \<noteq> 200 \<or> data r0 = ListData []"
    by force
  from listFunctions_probe_not_ready [OF r0, of l] obtain w1 where
    w1: "listFunctions_probe E u l w = (Retryable (Error (not_ready_message (stringify E (data r0)))), Suc l, w1)"
        "trace w1 = trace w @ [ApiRequest GET u None]" "clock w1 = Suc (clock w)"
    by blast
  let ?w2 = "sleep d w1"
  have c2: "clock ?w2 = Suc (clock w)" using w1 by simp
  have a: "\<forall>i<k. \<exists>r. sendApiRequest_reply E (clock ?w2 + i) GET u None = Resolved r
                    \<and> (status r \<noteq> 200 \<or> data r = ListData [])"
  proof (intro allI impI)
    fix i assume "i < k"
    then have "Suc i < Suc k" by simp
    with Suc.prems(2) show "\<exists>r. sendApiRequest_reply E (clock ?w2 + i) GET u None = Resolved r
                    \<and> (status r \<noteq> 200 \<or> data r = ListData [])"
      unfolding c2 by (metis add_Suc_shift)
  qed
  have b: "sendApiRequest_reply E (clock ?w2 + k) GET u None = Resolved r"
    using Suc.prems(3) c2 by simp
  from Suc.IH [OF km a b Suc.prems(4,5,6), of "Error (not_ready_message (stringify E (data r0)))" "Suc l"]
  obtain l' w' where
    "retry_loop (listFunctions_probe E u) d m (Error (not_ready_message (stringify E (data r0)))) (Suc l) ?w2
       = (Inr r, l', w')"
    "trace w' = trace ?w2 @ concat (replicate k [ApiRequest GET u None, Sleep d]) @ [ApiRequest GET u None]"
    by blast
  then show ?case using w1 by (simp add: n)
qed

lemma retry_loop_list_exhausted:
  assumes "\<forall>i\<le>m. \<exists>r. sendApiRequest_reply E (clock w + i) GET u None = Resolved r
                    \<and> (status r \<noteq> 200 \<or> data r = ListData [])"
    and "sendApiRequest_reply E (clock w + m) GET u None = Resolved rl"
  shows "\<exists>l' w'. retry_loop (listFunctions_probe E u) d (Suc m) e0 l w
            = (Inl (Error (not_ready_message (stringify E (data rl)))), l', w')
           \<and> trace w' = trace w @ concat (replicate (Suc m) [ApiRequest GET u None, Sleep d])"
  using assms
proof (induction m arbitrary: w l e0)
  case 0
  then have "status rl \<noteq> 200 \<or> data rl = ListData []" by auto
  with 0 listFunctions_probe_not_ready [of E w u rl l] obtain w1 where
    "listFunctions_probe E u l w = (Retryable (Error (not_ready_message (stringify E (data rl)))), Suc l, w1)"
    "trace w1 = trace w @ [ApiRequest GET u None]"
    by auto
  then show ?case by simp
next
  case (Suc m)
  from Suc.prems(1) obtain r0 where r0: "sendApiRequest_reply E (clock w) GET u None = Resolved r0"
      "status r0 \<noteq> 200 \<or> data r0 = ListData []"
    by force
  from listFunctions_probe_not_ready [OF r0, of l] obtain w1 where
    w1: "listFunctions_probe E u l w = (Retryable (Error (not_ready_message (stringify E (data r0)))), Suc l, w1)"
        "trace w1 = trace w @ [ApiRequest GET u None]" "clock w1 = Suc (clock w)"
    by blast
  let ?w2 = "sleep d w1"
  have c2: "clock ?w2 = Suc (clock w)" using w1 by simp
  have a: "\<forall>i\<le>m. \<exists>r. sendApiRequest_reply E (clock ?w2 + i) GET u None = Resolved r
                    \<and> (status r \<noteq> 200 \<or> data r = ListData [])"
  proof (intro allI impI)
    fix i assume "i \<le> m"
    then have "Suc i \<le> Suc m" by simp
    with Suc.prems(1) show "\<exists>r. sendApiRequest_reply E (clock ?w2 + i) GET u None = Resolved r
                    \<and> (status r \<noteq> 200 \<or> data r = ListData [])"
      unfolding c2 by (metis add_Suc_shift)
  qed
  have b: "sendApiRequest_reply E (clock ?w2 + m) GET u None = Resolved rl"
    using Suc.prems(2) c2 by simp
  from Suc.IH [OF a b, of "Error (not_ready_message (stringify E (data r0)))" "Suc l"]
  obtain l' w' where
    "retry_loop (listFunctions_probe E u) d (Suc m) (Error (not_ready_message (stringify E (data r0)))) (Suc l) ?w2
       = (Inl (Error (not_ready_message (stringify E (data rl)))), l', w')"
    "trace w' = trace ?w2 @ concat (replicate (Suc m) [ApiRequest GET u None, Sleep d])"
    by blast
  then show ?case using w1 by simp
qed

lemma listFunctions_converges:
  assumes "k < 30"
    and "\<forall>i<k. \<exists>r'. sendApiRequest_reply E (clock w + i) GET (functions_url E app) None = Resolved r'
                      \<and> (status r' \<noteq> 200 \<or> data r' = ListData [])"
    and "sendApiRequest_reply E (clock w + k) GET (functions_url E app) None = Resolved rk"
    and "status rk = 200" and "data rk = ListData vk" and "vk \<noteq> []"
  shows "fst (listFunctions E (Some app) w) = Inr (map properties vk)"
    and "trace (snd (listFunctions E (Some app) w))
             = trace w @ concat (replicate k [ApiRequest GET (functions_url E app) None, Sleep 30000])
               @ [ApiRequest GET (functions_url E app) None]"
proof -
  from retry_loop_list_converges [OF assms, of 30000 "Error []" 0]
  obtain l' w' where
    "retry_loop (listFunctions_probe E (functions_url E app)) 30000 30 (Error []) 0 w = (Inr rk, l', w')"
    "trace w' = trace w @ concat (replicate k [ApiRequest GET (functions_url E app) None, Sleep 30000])
                         @ [ApiRequest GET (functions_url E app) None]"
    by blast
  with assms(5) show "fst (listFunctions E (Some app) w) = Inr (map properties vk)"
    and "trace (snd (listFunctions E (Some app) w))
             = trace w @ concat (replicate k [ApiRequest GET (functions_url E app) None, Sleep 30000])
               @ [ApiRequest GET (functions_url E app) None]"
    by (simp_all add: listFunctions_def Guard_null_def runWithRetry_def retryCount_def retryInterval_def)
qed

lemma listFunctions_times_out:
  assumes "\<forall>i<30. \<exists>r'. sendApiRequest_reply E (clock w + i) GET (functions_url E app) None = Resolved r'
                      \<and> (status r' \<noteq> 200 \<or> data r' = ListData [])"
    and "sendApiRequest_reply E (clock w + 29) GET (functions_url E app) None = Resolved rl"
  shows "fst (listFunctions E (Some app) w) = Inl (Error (not_ready_message (stringify E (data rl))))"
    and "trace (snd (listFunctions E (Some app) w))
             = trace w @ concat (replicate 30 [ApiRequest GET (functions_url E app) None, Sleep 30000])"
proof -
  have "\<forall>i\<le>29. \<exists>r'. sendApiRequest_reply E (clock w + i) GET (functions_url E app) None = Resolved r'
                      \<and> (status r' \<noteq> 200 \<or> data r' = ListData [])"
    using assms(1) by auto
  from retry_loop_list_exhausted [OF this assms(2), of 30000 "Error []" 0]
  obtain l' w' where
    "retry_loop (listFunctions_probe E (functions_url E app)) 30000 (Suc 29) (Error []) 0 w
       = (Inl (Error (not_ready_message (stringify E (data rl)))), l', w')"
    "trace w' = trace w @ concat (replicate (Suc 29) [ApiRequest GET (functions_url E app) None, Sleep 30000])"
    by blast
  then show "fst (listFunctions E (Some app) w) = Inl (Error (not_ready_message (stringify E (data rl))))"
    and "trace (snd (listFunctions E (Some app) w))
             = trace w @ concat (replicate 30 [ApiRequest GET (functions_url E app) None, Sleep 30000])"
    by (simp_all add: listFunctions_def Guard_null_def runWithRetry_def retryCount_def retryInterval_def)
qed

text \<open>
  C2: a response of the listing with status 200 and a non-empty result set makes the
  probe return; a response with status 200 and an empty result set, or with another
  status, makes it signal the retryable condition. If the first \<open>k < 30\<close> responses are of
  the second kind and the next one is of the first kind, \<^verbatim>\<open>listFunctions\<close> returns the
  units of that response after exactly \<open>k + 1\<close> requests, with one sleep of 30000 ms
  between two requests. If the first 30 responses are of the second kind,
  \<^verbatim>\<open>listFunctions\<close> fails after 30 requests with the error whose message carries the
  body of the last response.
\<close>

theorem listFunctions_convergence:
  "(sendApiRequest_reply E (clock w) GET u None = Resolved r \<and> status r = 200
      \<and> data r = ListData v \<and> v \<noteq> []
     \<longrightarrow> fst (listFunctions_probe E u l w) = Returned r)
   \<and> (sendApiRequest_reply E (clock w) GET u None = Resolved r
        \<and> (status r \<noteq> 200 \<or> (status r = 200 \<and> data r = ListData []))
     \<longrightarrow> fst (listFunctions_probe E u l w) = Retryable (Error (not_ready_message (stringify E (data r)))))
   \<and> (k < 30
        \<and> (\<forall>i<k. \<exists>r'. sendApiRequest_reply E (clock w + i) GET (functions_url E app) None = Resolved r'
                      \<and> (status r' \<noteq> 200 \<or> (status r' = 200 \<and> data r' = ListData [])))
        \<and> sendApiRequest_reply E (clock w + k) GET (functions_url E app) None = Resolved rk
        \<and> status rk = 200 \<and> data rk = ListData vk \<and> vk \<noteq> []
     \<longrightarrow> fst (listFunctions E (Some app) w) = Inr (map properties vk)
         \<and> trace (snd (listFunctions E (Some app) w))
             = trace w @ concat (replicate k [ApiRequest GET (functions_url E app) None, Sleep 30000])
               @ [ApiRequest GET (functions_url E app) None])
   \<and> ((\<forall>i<30. \<exists>r'. sendApiRequest_reply E (clock w + i) GET (functions_url E app) None = Resolved r'
                      \<and> (status r' \<noteq> 200 \<or> (status r' = 200 \<and> data r' = ListData [])))
        \<and> sendApiRequest_reply E (clock w + 29) GET (functions_url E app) None = Resolved rl
     \<longrightarrow> fst (listFunctions E (Some app) w) = Inl (Error (not_ready_message (stringify E (data rl))))
         \<and> trace (snd (listFunctions E (Some app) w))
             = trace w @ concat (replicate 30 [ApiRequest GET (functions_url E app) None, Sleep 30000]))"
  (is "?A \<and> ?B \<and> ?C \<and> ?D")
proof -
  have A: ?A
    using listFunctions_probe_ready [of E w u r v l] by simp
  have B: ?B
    using listFunctions_probe_not_ready [of E w u r l] by auto
  have C: ?C
  proof
    assume a: "k < 30
        \<and> (\<forall>i<k. \<exists>r'. sendApiRequest_reply E (clock w + i) GET (functions_url E app) None = Resolved r'
                      \<and> (status r' \<noteq> 200 \<or> (status r' = 200 \<and> data r' = ListData [])))
        \<and> sendApiRequest_reply E (clock w + k) GET (functions_url E app) None = Resolved rk
        \<and> status rk = 200 \<and> data rk = ListData vk \<and> vk \<noteq> []"
    then have b: "\<forall>i<k. \<exists>r'. sendApiRequest_reply E (clock w + i) GET (functions_url E app) None = Resolved r'
                      \<and> (status r' \<noteq> 200 \<or> data r' = ListData [])"
      by blast
    from a listFunctions_converges [OF _ b, of rk vk]
    show "fst (listFunctions E (Some app) w) = Inr (map properties vk)
         \<and> trace (snd (listFunctions E (Some app) w))
             = trace w @ concat (replicate k [ApiRequest GET (functions_url E app) None, Sleep 30000])
               @ [ApiRequest GET (functions_url E app) None]"
      by blast
  qed
  have D: ?D
  proof
    assume a: "(\<forall>i<30. \<exists>r'. sendApiRequest_reply E (clock w + i) GET (functions_url E app) None = Resolved r'
                      \<and> (status r' \<noteq> 200 \<or> (status r' = 200 \<and> data r' = ListData [])))
        \<and> sendApiRequest_reply E (clock w + 29) GET (functions_url E app) None = Resolved rl"
    then have b: "\<forall>i<30. \<exists>r'. sendApiRequest_reply E (clock w + i) GET (functions_url E app) None = Resolved r'
                      \<and> (status r' \<noteq> 200 \<or> data r' = ListData [])"
      by blast
    from a listFunctions_times_out [OF b, of rl]
    show "fst (listFunctions E (Some app) w) = Inl (Error (not_ready_message (stringify E (data rl))))
         \<and> trace (snd (listFunctions E (Some app) w))
             = trace w @ concat (replicate 30 [ApiRequest GET (functions_url E app) None, Sleep 30000])"
      by blast
  qed
  from A B C D show ?thesis by (intro conjI)
qed

theorem listFunctions_convergence_witness:
  "fst (listFunctions_probe converging_env ''u'' 0 (initial_world\<lparr>clock := 2\<rparr>))
     = Returned \<lparr>status = 200,
                 data = ListData [\<lparr>properties = unit_a\<rparr>, \<lparr>properties = unit_b\<rparr>, \<lparr>properties = unit_c\<rparr>]\<rparr>
   \<and> fst (listFunctions_probe converging_env ''u'' 0 initial_world)
       = Retryable (Error (not_ready_message ''busy''))
   \<and> fst (listFunctions converging_env (Some example_site) initial_world) = Inr [unit_a, unit_b, unit_c]
   \<and> trace (snd (listFunctions converging_env (Some example_site) initial_world))
       = [ApiRequest GET (functions_url converging_env example_site) None, Sleep 30000,
          ApiRequest GET (functions_url converging_env example_site) None, Sleep 30000,
          ApiRequest GET (functions_url converging_env example_site) None]
   \<and> fst (listFunctions never_ready_env (Some example_site) initial_world)
       = Inl (Error (not_ready_message ''busy''))
   \<and> trace (snd (listFunctions never_ready_env (Some example_site) initial_world))
       = concat (replicate 30 [ApiRequest GET (functions_url never_ready_env example_site) None, Sleep 30000])"
proof -
  let ?items = "[\<lparr>properties = unit_a\<rparr>, \<lparr>properties = unit_b\<rparr>, \<lparr>properties = unit_c\<rparr>]"
  let ?ok = "\<lparr>status = 200, data = ListData ?items\<rparr>"
  let ?busy = "\<lparr>status = 503, data = TextData ''busy''\<rparr>"
  let ?w2 = "initial_world\<lparr>clock := 2\<rparr>"
  let ?u = "functions_url converging_env example_site"
  let ?v = "functions_url never_ready_env example_site"
  have at2: "sendApiRequest_reply converging_env (clock ?w2) GET ''u'' None = Resolved ?ok
               \<and> status ?ok = 200 \<and> data ?ok = ListData ?items \<and> ?items \<noteq> []"
    by (simp add: converging_env_def initial_world_def)
  have at0: "sendApiRequest_reply converging_env (clock initial_world) GET ''u'' None = Resolved ?busy
               \<and> (status ?busy \<noteq> 200 \<or> (status ?busy = 200 \<and> data ?busy = ListData []))"
    by (simp add: converging_env_def initial_world_def)
  have two: "2 < (30::nat)
      \<and> (\<forall>i<2. \<exists>r'. sendApiRequest_reply converging_env (clock initial_world + i) GET ?u None = Resolved r'
                  \<and> (status r' \<noteq> 200 \<or> (status r' = 200 \<and> data r' = ListData [])))
      \<and> sendApiRequest_reply converging_env (clock initial_world + 2) GET ?u None = Resolved ?ok
      \<and> status ?ok = 200 \<and> data ?ok = ListData ?items \<and> ?items \<noteq> []"
    by (auto simp: converging_env_def initial_world_def less_2_cases_iff)
  have never: "(\<forall>i<30. \<exists>r'. sendApiRequest_reply never_ready_env (clock initial_world + i) GET ?v None = Resolved r'
                  \<and> (status r' \<noteq> 200 \<or> (status r' = 200 \<and> data r' = ListData [])))
      \<and> sendApiRequest_reply never_ready_env (clock initial_world + 29) GET ?v None = Resolved ?busy"
    by (simp add: never_ready_env_def)
  have 1: "fst (listFunctions_probe converging_env ''u'' 0 ?w2) = Returned ?ok"
    using listFunctions_convergence [of converging_env ?w2 "''u''" ?ok ?items 0] at2 by blast
  have 2: "fst (listFunctions_probe converging_env ''u'' 0 initial_world)
             = Retryable (Error (not_ready_message (stringify converging_env (data ?busy))))"
    using listFunctions_convergence [of converging_env initial_world "''u''" ?busy _ 0] at0 by blast
  have 3: "fst (listFunctions converging_env (Some example_site) initial_world) = Inr (map properties ?items)
     \<and> trace (snd (listFunctions converging_env (Some example_site) initial_world))
       = trace initial_world @ concat (replicate 2 [ApiRequest GET ?u None, Sleep 30000])
         @ [ApiRequest GET ?u None]"
    using listFunctions_convergence [of converging_env initial_world _ _ _ _ 2 example_site ?ok ?items] two
    by blast
  have 4: "fst (listFunctions never_ready_env (Some example_site) initial_world)
             = Inl (Error (not_ready_message (stringify never_ready_env (data ?busy))))
     \<and> trace (snd (listFunctions never_ready_env (Some example_site) initial_world))
       = trace initial_world @ concat (replicate 30 [ApiRequest GET ?v None, Sleep 30000])"
    using listFunctions_convergence [of never_ready_env initial_world _ _ _ _ _ example_site _ _ ?busy] never
    by blast
  have s: "stringify converging_env (TextData ''busy'') = ''busy''"
          "stringify never_ready_env (TextData ''busy'') = ''busy''"
    by (simp_all add: converging_env_def never_ready_env_def example_env_def)
  from 1 2 3 4 show ?thesis
    by (simp add: s initial_world_def numeral_2_eq_2)
qed





lemma retry_loop_Returned:
  "probe l w = (Returned v, l1, w1) \<Longrightarrow> 0 < n \<Longrightarrow> retry_loop probe d n e l w = (Inr v, l1, w1)"
  by (cases n) simp_all




lemma deleteFunction_promise_trace:
  "trace (snd (deleteFunction_promise E (Some app) n w))
     = trace w @ (if n = [] then [] else [ApiRequest DELETE (function_url E app n) None])"
  by (simp add: deleteFunction_promise_def Guard_null_def Guard_empty_def sendApiRequest_def Let_def
           split: prod.splits)

lemma cleanUp_forEach_trace:
  "trace (snd (cleanUp_forEach E (Some app) declared observed w))
     = trace w @ map (\<lambda>f. ApiRequest DELETE (function_url E app (name f)) None)
                   (filter (\<lambda>f. name f \<in> set declared \<and> name f \<noteq> []) observed)"
proof (induction observed arbitrary: w)
  case Nil
  then show ?case by simp
next
  case (Cons func rest)
  show ?case
  proof (cases "name func \<in> set declared")
    case False
    then show ?thesis using Cons.IH by simp
  next
    case True
    obtain p w1 where d: "deleteFunction_promise E (Some app) (name func) w = (p, w1)"
      by (cases "deleteFunction_promise E (Some app) (name func) w") auto
    then have "trace w1 = trace w @ (if name func = [] then []
                 else [ApiRequest DELETE (function_url E app (name func)) None])"
      using deleteFunction_promise_trace [of E app "name func" w] by simp
    with True d Cons.IH [of w1] show ?thesis
      by (auto split: prod.splits)
  qed
qed

lemma cleanUp_world:
  assumes "listFunctions E (Some app) (log ''Cleaning up existing functions'' w) = (Inr observed, w1)"
  shows "snd (cleanUp E (Some app) w) = snd (cleanUp_forEach E (Some app) (getAllFunctions E) observed w1)"
  using assms by (auto simp: cleanUp_def Guard_null_def Let_def split: prod.splits)

text \<open>
  C1 (amended): after a listing that returns the observed units, \<^verbatim>\<open>cleanUp\<close> issues
  DELETE requests for exactly the observed units whose name is among the declared names
  (and is not empty: the guard of \<^verbatim>\<open>deleteFunction\<close> stops an empty name before the
  request), in the order of the listing, and for no other unit.
\<close>

theorem cleanUp_deletes_declared:
  assumes "listFunctions E (Some app) (log ''Cleaning up existing functions'' w) = (Inr observed, w1)"
  shows "trace (snd (cleanUp E (Some app) w))
           = trace w1 @ map (\<lambda>f. ApiRequest DELETE (function_url E app (name f)) None)
                          (filter (\<lambda>f. name f \<in> set (getAllFunctions E) \<and> name f \<noteq> []) observed)"
  by (simp only: cleanUp_world [OF assms] cleanUp_forEach_trace)

lemma listing_env_listFunctions:
  "listFunctions listing_env (Some example_site) (log m initial_world)
     = (Inr [unit_a, unit_b, unit_c],
        emit (ApiRequest GET (functions_url listing_env example_site) None) (log m initial_world))"
proof -
  let ?u = "functions_url listing_env example_site"
  let ?items = "[\<lparr>properties = unit_a\<rparr>, \<lparr>properties = unit_b\<rparr>, \<lparr>properties = unit_c\<rparr>]"
  have p: "listFunctions_probe listing_env ?u 0 (log m initial_world)
             = (Returned \<lparr>status = 200, data = ListData ?items\<rparr>, 0,
                emit (ApiRequest GET ?u None) (log m initial_world))"
    by (simp add: listFunctions_probe_def sendApiRequest_def listing_env_def)
  have "runWithRetry (listFunctions_probe listing_env ?u) retryCount retryInterval 0 (log m initial_world)
          = (Inr \<lparr>status = 200, data = ListData ?items\<rparr>, 0,
             emit (ApiRequest GET ?u None) (log m initial_world))"
    using retry_loop_Returned
            [where probe = "listFunctions_probe listing_env ?u" and l = 0 and w = "log m initial_world"
               and n = 30 and d = 30000 and e = "Error []", OF p]
    by (simp add: runWithRetry_def retryCount_def retryInterval_def)
  then show ?thesis
    by (simp add: listFunctions_def Guard_null_def)
qed

text \<open>
  C1, as stated, fails: with declared names a, b and observed units a, b, c, \<^verbatim>\<open>cleanUp\<close>
  deletes a and b, the declared ones, and issues no request for c.
\<close>

theorem cleanUp_counterexample:
  "getAllFunctions listing_env = [''a'', ''b'']
   \<and> fst (listFunctions listing_env (Some example_site) (log ''Cleaning up existing functions'' initial_world))
       = Inr [unit_a, unit_b, unit_c]
   \<and> trace (snd (cleanUp listing_env (Some example_site) initial_world))
       = [ApiRequest GET (functions_url listing_env example_site) None,
          ApiRequest DELETE (function_url listing_env example_site ''a'') None,
          ApiRequest DELETE (function_url listing_env example_site ''b'') None]
   \<and> ApiRequest DELETE (function_url listing_env example_site ''c'') None
       \<notin> set (trace (snd (cleanUp listing_env (Some example_site) initial_world)))"
proof -
  let ?w1 = "emit (ApiRequest GET (functions_url listing_env example_site) None)
               (log ''Cleaning up existing functions'' initial_world)"
  have d: "getAllFunctions listing_env = [''a'', ''b'']"
    by (simp add: listing_env_def example_env_def)
  have "trace (snd (cleanUp listing_env (Some example_site) initial_world))
          = trace (snd (cleanUp_forEach listing_env (Some example_site) [''a'', ''b'']
                          [unit_a, unit_b, unit_c] ?w1))"
    using cleanUp_world [OF listing_env_listFunctions] by (simp only: d)
  also have "\<dots> = trace ?w1 @ map (\<lambda>f. ApiRequest DELETE (function_url listing_env example_site (name f)) None)
                          (filter (\<lambda>f. name f \<in> set [''a'', ''b''] \<and> name f \<noteq> []) [unit_a, unit_b, unit_c])"
    by (rule cleanUp_forEach_trace)
  also have "\<dots> = [ApiRequest GET (functions_url listing_env example_site) None,
          ApiRequest DELETE (function_url listing_env example_site ''a'') None,
          ApiRequest DELETE (function_url listing_env example_site ''b'') None]"
    by (simp add: unit_a_def unit_b_def unit_c_def initial_world_def)
  finally have t: "trace (snd (cleanUp listing_env (Some example_site) initial_world))
       = [ApiRequest GET (functions_url listing_env example_site) None,
          ApiRequest DELETE (function_url listing_env example_site ''a'') None,
          ApiRequest DELETE (function_url listing_env example_site ''b'') None]" .
  have n: "ApiRequest DELETE (function_url listing_env example_site ''c'') None
       \<notin> set (trace (snd (cleanUp listing_env (Some example_site) initial_world)))"
    unfolding t by (simp add: function_url_def functions_url_def)
  from d t n show ?thesis by (simp add: listing_env_listFunctions)
qed

theorem cleanUp_deletes_declared_witness:
  "trace (snd (cleanUp listing_env (Some example_site) initial_world))
       = [ApiRequest GET (functions_url listing_env example_site) None,
          ApiRequest DELETE (function_url listing_env example_site ''a'') None,
          ApiRequest DELETE (function_url listing_env example_site ''b'') None]"
proof -
  have d: "getAllFunctions listing_env = [''a'', ''b'']"
    by (simp add: listing_env_def example_env_def)
  from cleanUp_deletes_declared [OF listing_env_listFunctions] show ?thesis
    by (simp add: d unit_a_def unit_b_def unit_c_def initial_world_def)
qed

section \<open>Order of the external-package variant\<close>

lemma stages_append [simp]: "stages (xs @ ys) = stages xs @ stages ys"
  by (induction xs) (auto split: option.splits)

lemma retry_loop_list_stages:
  "\<exists>zs. trace (snd (snd (retry_loop (listFunctions_probe E u) d n e0 l w))) = trace w @ zs \<and> stages zs = []"
proof (induction n arbitrary: e0 l w)
  case 0
  then show ?case by simp
next
  case (Suc n)
  obtain a l1 w1 where p: "listFunctions_probe E u l w = (a, l1, w1)"
    by (cases "listFunctions_probe E u l w") auto
  then have t: "trace w1 = trace w @ [ApiRequest GET u None]"
    by (auto simp: listFunctions_probe_def listFunctions_not_ready_def sendApiRequest_def Let_def
             split: reply.splits if_splits sum.splits)
  show ?case
  proof (cases a)
    case (Retryable e)
    from Suc.IH [of e l1 "sleep d w1"] obtain zs where
      "trace (snd (snd (retry_loop (listFunctions_probe E u) d n e l1 (sleep d w1)))) = trace (sleep d w1) @ zs"
      "stages zs = []" by blast
    with p t Retryable show ?thesis
      by (intro exI [of _ "ApiRequest GET u None # Sleep d # zs"]) simp
  qed (use p t in auto)
qed

lemma listFunctions_stages:
  "\<exists>zs. trace (snd (listFunctions E (Some app) w)) = trace w @ zs \<and> stages zs = []"
proof -
  from retry_loop_list_stages [of E "functions_url E app" retryInterval retryCount "Error []" 0 w]
  obtain zs where
    "trace (snd (snd (retry_loop (listFunctions_probe E (functions_url E app)) retryInterval retryCount
        (Error []) 0 w))) = trace w @ zs" "stages zs = []"
    by blast
  then show ?thesis
    by (intro exI [of _ zs])
       (auto simp: listFunctions_def Guard_null_def runWithRetry_def split: prod.splits sum.splits)
qed

lemma uploadFunctions_forEach_trace:
  "trace (snd (uploadFunctions_forEach app declared deployed w)) = trace w"
  by (induction deployed arbitrary: w) (auto split: option.splits list.splits)

lemma uploadFunctions_report_stages:
  "\<exists>zs. trace (snd (uploadFunctions_report E app w)) = trace w @ zs \<and> stages zs = []"
proof -
  from listFunctions_stages [of E app "log ''Deployed serverless functions:'' w"]
  obtain zs where
    "trace (snd (listFunctions E (Some app) (log ''Deployed serverless functions:'' w))) = trace w @ zs"
    "stages zs = []"
    by auto
  then show ?thesis
    by (intro exI [of _ zs])
       (auto simp: uploadFunctions_report_def Let_def uploadFunctions_forEach_trace split: prod.splits sum.splits)
qed

lemma uploadZippedArtifactToBlobStorage_log:
  "fst (uploadZippedArtifactToBlobStorage E z (log m w)) = fst (uploadZippedArtifactToBlobStorage E z w)"
  by (simp add: uploadZippedArtifactToBlobStorage_def blob_call_def split: reply.splits)

lemma uploadFunctions_external_stages:
  "\<exists>ys. trace (snd (uploadFunctions_external E app z w)) = trace w @ ys
     \<and> prefix (stages ys) [StorageUpload, SettingsFetch, SettingsPut, TriggerSync]
     \<and> (\<forall>e. fst (uploadZippedArtifactToBlobStorage E z w) = Inl e
           \<longrightarrow> fst (uploadFunctions_external E app z w) = Inl e \<and> set (stages ys) \<subseteq> {StorageUpload})"
  by (auto simp: uploadFunctions_external_def uploadZippedArtifactToBlobStorage_def blob_call_def
        generateBlobSasTokenUrl_def updateFunctionAppSetting_def listApplicationSettings_def
        sendApiRequest_def syncTriggers_def Guard_null_def Let_def
      split: reply.splits option.splits sum.splits)

text \<open>
  C5: in the external-package variant, the upload to object storage, the fetch of the
  settings, the push of the settings and the trigger sync leave in this order, each at
  most once and none before its predecessor: the stages of the events that
  \<^verbatim>\<open>uploadFunctions\<close> adds are a prefix of upload, fetch, push, sync. If the upload to
  object storage fails, \<^verbatim>\<open>uploadFunctions\<close> fails with that error, and neither the fetch
  nor the push of the settings nor the trigger sync is among the events.
\<close>

theorem uploadFunctions_external_order:
  assumes "deployment_external E"
  shows "\<exists>new. trace (snd (uploadFunctions E (Some app) w)) = trace w @ new
           \<and> prefix (stages new) [StorageUpload, SettingsFetch, SettingsPut, TriggerSync]
           \<and> (\<forall>e. fst (uploadZippedArtifactToBlobStorage E (getFunctionZipFile E) w) = Inl e
                 \<longrightarrow> fst (uploadFunctions E (Some app) w) = Inl e
                     \<and> SettingsFetch \<notin> set (stages new) \<and> SettingsPut \<notin> set (stages new)
                     \<and> TriggerSync \<notin> set (stages new))"
proof -
  let ?z = "getFunctionZipFile E"
  let ?w0 = "log ''Deploying serverless functions...'' w"
  from uploadFunctions_external_stages [of E app ?z ?w0]
  obtain ys where ys: "trace (snd (uploadFunctions_external E app ?z ?w0)) = trace w @ ys"
      "prefix (stages ys) [StorageUpload, SettingsFetch, SettingsPut, TriggerSync]"
      "\<forall>e. fst (uploadZippedArtifactToBlobStorage E ?z ?w0) = Inl e
           \<longrightarrow> fst (uploadFunctions_external E app ?z ?w0) = Inl e \<and> set (stages ys) \<subseteq> {StorageUpload}"
    by auto
  obtain r1 w1 where ext: "uploadFunctions_external E app ?z ?w0 = (r1, w1)"
    by (cases "uploadFunctions_external E app ?z ?w0") auto
  show ?thesis
  proof (cases r1)
    case (Inl e1)
    with assms ext have u: "uploadFunctions E (Some app) w = (Inl e1, w1)"
      by (simp add: uploadFunctions_def Guard_null_def Let_def)
    have "trace (snd (uploadFunctions E (Some app) w)) = trace w @ ys"
      using u ys(1) ext by simp
    moreover have "\<forall>e. fst (uploadZippedArtifactToBlobStorage E ?z w) = Inl e
                 \<longrightarrow> fst (uploadFunctions E (Some app) w) = Inl e
                     \<and> SettingsFetch \<notin> set (stages ys) \<and> SettingsPut \<notin> set (stages ys)
                     \<and> TriggerSync \<notin> set (stages ys)"
      using ys(3) u ext Inl by (auto simp: uploadZippedArtifactToBlobStorage_log)
    ultimately show ?thesis using ys(2) by blast
  next
    case (Inr u1)
    from uploadFunctions_report_stages [of E app w1] obtain zs where
      zs: "trace (snd (uploadFunctions_report E app w1)) = trace w1 @ zs" "stages zs = []"
      by blast
    from Inr assms ext have u: "uploadFunctions E (Some app) w = uploadFunctions_report E app w1"
      by (simp add: uploadFunctions_def Guard_null_def Let_def)
    have "trace (snd (uploadFunctions E (Some app) w)) = trace w @ (ys @ zs)"
      using u zs(1) ys(1) ext by simp
    moreover have "stages (ys @ zs) = stages ys"
      using zs(2) by simp
    moreover have "\<forall>e. fst (uploadZippedArtifactToBlobStorage E ?z w) \<noteq> Inl e"
      using ys(3) ext Inr by (auto simp: uploadZippedArtifactToBlobStorage_log)
    ultimately show ?thesis using ys(2) by (intro exI [of _ "ys @ zs"]) simp
  qed
qed

theorem uploadFunctions_external_order_witness:
  "fst (uploadFunctions failing_storage_env (Some example_site) initial_world)
     = Inl (Rejection ''storage unavailable'')
   \<and> trace (snd (uploadFunctions failing_storage_env (Some example_site) initial_world))
       = [BlobInitialize, BlobCreateContainerIfNotExists ''deployment-artifacts'',
          BlobUploadFile ''svc.zip'' ''deployment-artifacts'' ''svc.zip'']
   \<and> (\<exists>new. trace (snd (uploadFunctions failing_storage_env (Some example_site) initial_world)) = new
          \<and> SettingsFetch \<notin> set (stages new) \<and> SettingsPut \<notin> set (stages new)
          \<and> TriggerSync \<notin> set (stages new))
   \<and> stages (trace (snd (uploadFunctions external_env (Some example_site) initial_world)))
       = [StorageUpload, SettingsFetch, SettingsPut, TriggerSync]"
proof -
  have ext: "deployment_external failing_storage_env"
    by (simp add: failing_storage_env_def)
  have zip: "getFunctionZipFile failing_storage_env = ''svc.zip''"
    by (simp add: getFunctionZipFile_def truthy_def failing_storage_env_def example_env_def)
  have fails: "fst (uploadZippedArtifactToBlobStorage failing_storage_env
                      (getFunctionZipFile failing_storage_env) initial_world)
                 = Inl (Rejection ''storage unavailable'')"
    by (simp add: zip uploadZippedArtifactToBlobStorage_def blob_call_def failing_storage_env_def)
  from uploadFunctions_external_order [OF ext, of example_site initial_world] fails
  obtain new where new:
    "trace (snd (uploadFunctions failing_storage_env (Some example_site) initial_world))
       = trace initial_world @ new"
    "fst (uploadFunctions failing_storage_env (Some example_site) initial_world)
       = Inl (Rejection ''storage unavailable'')"
    "SettingsFetch \<notin> set (stages new)" "SettingsPut \<notin> set (stages new)" "TriggerSync \<notin> set (stages new)"
    by blast
  have t: "trace (snd (uploadFunctions failing_storage_env (Some example_site) initial_world))
       = [BlobInitialize, BlobCreateContainerIfNotExists ''deployment-artifacts'',
          BlobUploadFile ''svc.zip'' ''deployment-artifacts'' ''svc.zip'']"
    by (simp add: uploadFunctions_def Guard_null_def Let_def getFunctionZipFile_def truthy_def
          uploadFunctions_external_def uploadZippedArtifactToBlobStorage_def blob_call_def
          failing_storage_env_def example_env_def initial_world_def)
  have ok: "stages (trace (snd (uploadFunctions external_env (Some example_site) initial_world)))
       = [StorageUpload, SettingsFetch, SettingsPut, TriggerSync]"
  proof -
    let ?w0 = "log ''Deploying serverless functions...'' initial_world"
    define w1 where "w1 = snd (uploadFunctions_external external_env example_site ''svc.zip'' ?w0)"
    have e: "uploadFunctions_external external_env example_site ''svc.zip'' ?w0 = (Inr (), w1)"
      unfolding w1_def
      by (simp add: uploadFunctions_external_def uploadZippedArtifactToBlobStorage_def blob_call_def
            generateBlobSasTokenUrl_def updateFunctionAppSetting_def listApplicationSettings_def
            sendApiRequest_def syncTriggers_def Guard_null_def Let_def external_env_def example_env_def)
    have s1: "stages (trace w1) = [StorageUpload, SettingsFetch, SettingsPut, TriggerSync]"
      unfolding w1_def
      by (simp add: uploadFunctions_external_def uploadZippedArtifactToBlobStorage_def blob_call_def
            generateBlobSasTokenUrl_def updateFunctionAppSetting_def listApplicationSettings_def
            sendApiRequest_def syncTriggers_def Guard_null_def Let_def external_env_def example_env_def
            initial_world_def)
    have z: "getFunctionZipFile external_env = ''svc.zip''" "deployment_external external_env"
      by (simp_all add: getFunctionZipFile_def truthy_def external_env_def example_env_def)
    have u: "uploadFunctions external_env (Some example_site) initial_world
               = uploadFunctions_report external_env example_site w1"
      by (simp add: uploadFunctions_def Guard_null_def Let_def z e)
    from uploadFunctions_report_stages [of external_env example_site w1] obtain zs where
      "trace (snd (uploadFunctions_report external_env example_site w1)) = trace w1 @ zs" "stages zs = []"
      by blast
    with u s1 show ?thesis by simp
  qed
  from new t ok show ?thesis by (simp add: initial_world_def)
qed

end
